theory Spec2Isabelle
  imports Main "HOL-Library.AList"
begin

section \<open>The exec service of endly: a shallow embedding of system/exec/service.go\<close>

text \<open>
  The service keeps interactive shell sessions and runs command sequences on them.
  Strings are Go strings read as byte sequences (\<open>string\<close>); Go's \<open>(value, error)\<close>
  results are pairs whose second component is an \<open>error option\<close> (\<open>None\<close> is \<open>nil\<close>);
  mutation of the session, the response and the request is explicit state passing.
\<close>

subsection \<open>Go's strings and path functions, as far as service.go calls them\<close>

text \<open>\<open>strings.HasPrefix(s, prefix)\<close>, \<open>strings.HasSuffix(s, suffix)\<close> and
  \<open>strings.Contains(s, substr)\<close> (also \<open>strings.Index(s, substr) != -1\<close>).\<close>

fun HasPrefix :: "string \<Rightarrow> string \<Rightarrow> bool" where
  "HasPrefix s [] = True"
| "HasPrefix [] (p # ps) = False"
| "HasPrefix (c # cs) (p # ps) = (c = p \<and> HasPrefix cs ps)"

definition HasSuffix :: "string \<Rightarrow> string \<Rightarrow> bool" where
  "HasSuffix s suffix = HasPrefix (rev s) (rev suffix)"

fun Contains :: "string \<Rightarrow> string \<Rightarrow> bool" where
  "Contains [] substr = (substr = [])"
| "Contains (c # cs) substr = (HasPrefix (c # cs) substr \<or> Contains cs substr)"

text \<open>\<open>strings.Join(elems, sep)\<close>.\<close>

fun Join :: "string list \<Rightarrow> string \<Rightarrow> string" where
  "Join [] sep = []"
| "Join [x] sep = x"
| "Join (x # y # ys) sep = x @ sep @ Join (y # ys) sep"

text \<open>\<open>strings.Split(s, sep)\<close> for a separator of one byte (service.go splits on \<open>=\<close> and
  on the newline): one more piece than there are separators, so the empty string gives one
  empty piece.\<close>

primrec Split :: "string \<Rightarrow> char \<Rightarrow> string list" where
  "Split [] sep = [[]]"
| "Split (c # cs) sep =
     (if c = sep then [] # Split cs sep
      else (case Split cs sep of [] \<Rightarrow> [[c]] | x # xs \<Rightarrow> (c # x) # xs))"

text \<open>\<open>strings.Replace(s, old, new, n)\<close> for \<open>old\<close> of one byte and \<open>n \<ge> 0\<close>: the first
  \<open>n\<close> occurrences are replaced.\<close>

fun Replace :: "string \<Rightarrow> char \<Rightarrow> string \<Rightarrow> nat \<Rightarrow> string" where
  "Replace [] old new n = []"
| "Replace (c # cs) old new n =
     (if n = 0 then c # cs
      else if c = old then new @ Replace cs old new (n - 1)
      else c # Replace cs old new n)"

text \<open>\<open>strings.TrimSpace(s)\<close> removes leading and trailing white space as
  \<open>unicode.IsSpace\<close> defines it: the code points U+0009 to U+000D, U+0020, U+0085, U+00A0,
  U+1680, U+2000 to U+200A, U+2028, U+2029, U+202F, U+205F and U+3000. A Go string is its
  UTF-8 bytes, so \<open>spaceRunes\<close> lists the encodings of these code points. At the front of
  a string Go decodes one rune at a time and stops at the first that is no white space;
  a byte that starts no valid encoding decodes to U+FFFD, which is none. At the end it decodes
  the last rune, searching backwards for its first byte. Either way a white space rune
  is found exactly when its encoding is a prefix (a suffix) of the string: \<open>dropRunes\<close>
  removes such encodings from the front as long as there is one.
  \<open>strings.Trim(s, cutset)\<close>, for an ASCII cutset, drops the bytes of the cutset at both
  ends.\<close>

definition spaceRunes :: "string list" where
  "spaceRunes =
     [[CHR 0x09], [CHR 0x0A], [CHR 0x0B], [CHR 0x0C], [CHR 0x0D], [CHR 0x20],
      [CHR 0xC2, CHR 0x85], [CHR 0xC2, CHR 0xA0],
      [CHR 0xE1, CHR 0x9A, CHR 0x80],
      [CHR 0xE2, CHR 0x80, CHR 0x80], [CHR 0xE2, CHR 0x80, CHR 0x81],
      [CHR 0xE2, CHR 0x80, CHR 0x82], [CHR 0xE2, CHR 0x80, CHR 0x83],
      [CHR 0xE2, CHR 0x80, CHR 0x84], [CHR 0xE2, CHR 0x80, CHR 0x85],
      [CHR 0xE2, CHR 0x80, CHR 0x86], [CHR 0xE2, CHR 0x80, CHR 0x87],
      [CHR 0xE2, CHR 0x80, CHR 0x88], [CHR 0xE2, CHR 0x80, CHR 0x89],
      [CHR 0xE2, CHR 0x80, CHR 0x8A],
      [CHR 0xE2, CHR 0x80, CHR 0xA8], [CHR 0xE2, CHR 0x80, CHR 0xA9],
      [CHR 0xE2, CHR 0x80, CHR 0xAF], [CHR 0xE2, CHR 0x81, CHR 0x9F],
      [CHR 0xE3, CHR 0x80, CHR 0x80]]"

function dropRunes :: "string list \<Rightarrow> string \<Rightarrow> string" where
  "dropRunes runes s =
     (case find (\<lambda>r. r \<noteq> [] \<and> HasPrefix s r) runes of
        None \<Rightarrow> s
      | Some r \<Rightarrow> dropRunes runes (drop (length r) s))"
  by pat_completeness auto

termination
proof (relation "measure (\<lambda>(runes, s). length s)")
  show "wf (measure (\<lambda>(runes, s). length s))"
    by simp
next
  fix runes :: "string list" and s r :: string
  assume found: "find (\<lambda>r. r \<noteq> [] \<and> HasPrefix s r) runes = Some r"
  have "HasPrefix s' r' \<Longrightarrow> r' \<noteq> [] \<Longrightarrow> s' \<noteq> []" for s' r'
    by (cases s'; cases r') simp_all
  moreover from found have "r \<noteq> [] \<and> HasPrefix s r"
    by (auto simp add: find_Some_iff)
  ultimately have "r \<noteq> []" and "s \<noteq> []"
    by blast+
  then show "((runes, drop (length r) s), (runes, s)) \<in> measure (\<lambda>(runes, s). length s)"
    by simp
qed

declare dropRunes.simps [simp del]

definition TrimSpace :: "string \<Rightarrow> string" where
  "TrimSpace s = rev (dropRunes (map rev spaceRunes) (rev (dropRunes spaceRunes s)))"

definition Trim :: "string \<Rightarrow> string \<Rightarrow> string" where
  "Trim s cutset =
     rev (dropWhile (\<lambda>ch. ch \<in> set cutset) (rev (dropWhile (\<lambda>ch. ch \<in> set cutset) s)))"

text \<open>\<open>path.Split(p)\<close> splits right after the final slash; \<open>path.Ext(p)\<close> is the suffix
  that starts at the final dot of the final slash-separated element, empty without a dot.\<close>

definition pathSplit :: "string \<Rightarrow> string \<times> string" where
  "pathSplit p =
     (let name = rev (takeWhile (\<lambda>ch. ch \<noteq> CHR ''/'') (rev p))
      in (take (length p - length name) p, name))"

definition pathExt :: "string \<Rightarrow> string" where
  "pathExt p =
     (let name = rev (takeWhile (\<lambda>ch. ch \<noteq> CHR ''/'') (rev p))
      in if CHR ''.'' \<in> set name
         then CHR ''.'' # rev (takeWhile (\<lambda>ch. ch \<noteq> CHR ''.'') (rev name))
         else [])"

abbreviation newline :: string where
  "newline \<equiv> [CHR 0x0A]"

abbreviation quote :: string where
  "quote \<equiv> [CHR 0x27]"

subsection \<open>Errors, the remote shell, the session\<close>

text \<open>An \<open>error\<close> is the distinguished \<open>ssh.ErrTerminated\<close> or an error with a message
  (\<open>fmt.Errorf\<close>, or whatever the transport reports).\<close>

datatype error = ErrTerminated | Errorf string

text \<open>
  The \<open>ssh.MultiCommandSession\<close> behind a session is code of another library. It is
  modelled by what the service sends to it: the history of requests, and a \<open>shell\<close>
  that answers each request as a function of the history up to and including it.
  The listener of \<open>Run\<close> only publishes events and is left out.
\<close>

datatype event = RunEv string int "string list" | ReconnectEv

record shell =
  respond :: "event list \<Rightarrow> string \<times> error option"
  reconnected :: "event list \<Rightarrow> error option"
  ShellPrompt :: "event list \<Rightarrow> string"

record session =
  ID :: string
  Username :: string
  SuperUSerAuth :: bool
  CurrentDirectory :: string
  EnvVariables :: "(string \<times> string) list"
  Path :: "string list"
  trace :: "event list"

text \<open>\<open>EnvVariables\<close> is a Go map: an association list with \<open>map_of\<close> as lookup and
  \<open>AList.update\<close> as assignment; the order of the list stands for the order in which
  \<open>range\<close> visits the map, which Go leaves open.\<close>

definition SessionRun ::
  "shell \<Rightarrow> session \<Rightarrow> string \<Rightarrow> int \<Rightarrow> string list \<Rightarrow> (string \<times> error option) \<times> session" where
  "SessionRun sh s command timeoutMs terminators =
     (let tr = trace s @ [RunEv command timeoutMs terminators]
      in (respond sh tr, s\<lparr>trace := tr\<rparr>))"

definition SessionReconnect :: "shell \<Rightarrow> session \<Rightarrow> error option \<times> session" where
  "SessionReconnect sh s =
     (let tr = trace s @ [ReconnectEv] in (reconnected sh tr, s\<lparr>trace := tr\<rparr>))"

subsection \<open>Requests and responses\<close>

text \<open>Of the target of a request only its credentials are read (by the sudo password
  flow); \<open>ReqOptions\<close> is the field \<open>Options\<close> of the request, \<open>OptTimeoutMs\<close> and
  \<open>OptTerminators\<close> are the fields \<open>TimeoutMs\<close> and \<open>Terminators\<close> of the options.\<close>

type_synonym ctx = "string \<rightharpoonup> string"

type_synonym extracts = "(string \<times> string) list"

type_synonym data = "(string \<times> string) list"

record ExtractCommand =
  Command :: string
  When :: string
  TimeoutMs :: int
  Terminators :: "string list"
  Errors :: "string list"
  Success :: "string list"
  Extract :: extracts

record Options =
  Env :: "(string \<times> string) list"
  SystemPaths :: "string list"
  Directory :: string
  OptTimeoutMs :: int
  OptTerminators :: "string list"

record ExtractRequest =
  Credentials :: string
  ReqOptions :: Options
  Commands :: "ExtractCommand list"
  Secrets :: "(string \<times> string) list"
  SuperUser :: bool
  AutoSudo :: bool
  CheckError :: bool

text \<open>Modelled from the spec: the command log and \<open>NewCommandLog\<close>, \<open>RunResponse\<close>,
  \<open>NewRunResponse\<close> and \<open>Add\<close> are declared in contract.go, which is not among the
  sources. The spec: \<open>Cmd\<close> is an "ordered log of {Stdin, Stdout, Err}", and the executor
  logs "the (securedCmd, stdout, err) triple".\<close>

record CommandLog =
  Stdin :: string
  Stdout :: string
  Error :: "error option"

record RunResponse =
  Session :: string
  Cmd :: "CommandLog list"
  Output :: string
  Data :: data

definition NewCommandLog :: "string \<Rightarrow> string \<Rightarrow> error option \<Rightarrow> CommandLog" where
  "NewCommandLog stdin stdout err = \<lparr>Stdin = stdin, Stdout = stdout, Error = err\<rparr>"

definition NewRunResponse :: "string \<Rightarrow> RunResponse" where
  "NewRunResponse sessionID = \<lparr>Session = sessionID, Cmd = [], Output = [], Data = []\<rparr>"

definition Add :: "RunResponse \<Rightarrow> CommandLog \<Rightarrow> RunResponse" where
  "Add response log = response\<lparr>Cmd := Cmd response @ [log]\<rparr>"

subsection \<open>Collaborators that are not among the sources\<close>

text \<open>
  The snapshot that \<open>buildExecutionState\<close> hands to the criteria evaluator and to the
  expander: the workflow state, the command log as (stdin, stdout) pairs, the output
  and the last stdout.
\<close>

record execution_state =
  stBase :: ctx
  stCmd :: "(string \<times> string) list"
  stOutput :: string
  stStdout :: string

text \<open>
  The functions of other packages that service.go calls are parameters of the model:
  the context's expander and secrets, the criteria evaluator, the extractor, the helpers
  of package util, toolbox.AsInt, the Path of package model and the ENDLY_SECRET_REVEAL
  switch. Every theorem holds for all of them.
\<close>

record collab =
  Expand :: "ctx \<Rightarrow> string \<Rightarrow> string"
  ExpandAsText :: "execution_state \<Rightarrow> string \<Rightarrow> string"
  Evaluate :: "ctx \<Rightarrow> execution_state \<Rightarrow> string \<Rightarrow> bool \<times> error option"
  SecretsExpand :: "string \<Rightarrow> (string \<times> string) list \<Rightarrow> error + string"
  SecretReveal :: bool
  IsPermitted :: "string \<Rightarrow> bool"
  EscapedContains :: "string \<Rightarrow> string \<Rightarrow> bool"
  EscapeStdout :: "string \<Rightarrow> string"
  CheckNoSuchFileOrDirectory :: "string \<Rightarrow> bool"
  CommandNotFound :: string
  ExtractRules :: "extracts \<Rightarrow> data \<Rightarrow> string list \<Rightarrow> error option \<times> data"
  AsInt :: "string \<Rightarrow> int"
  Unshift :: "string list \<Rightarrow> string list \<Rightarrow> string list"
  EnvValue :: "string list \<Rightarrow> string"

subsection \<open>Stdout validation\<close>

fun match :: "collab \<Rightarrow> string \<Rightarrow> string list \<Rightarrow> string" where
  "match c out [] = []"
| "match c out (candidate # candidates) =
     (if EscapedContains c out candidate then candidate else match c out candidates)"

definition validateStdout :: "collab \<Rightarrow> string \<Rightarrow> string \<Rightarrow> ExtractCommand \<Rightarrow> error option" where
  "validateStdout c out command execution =
     (let errorMatch = match c out (Errors execution) in
      if errorMatch \<noteq> [] then
        Some (Errorf (''encounter error fragment: ('' @ errorMatch @ ''), command:'' @ command
                      @ '', stdout: '' @ out))
      else if length (Success execution) > 0 then
        (let hasMatch = match c out (Success execution) in
         if hasMatch = [] then
           Some (Errorf (''failed to match any fragment: '' @ quote
                         @ Join (Success execution) '','' @ quote
                         @ '', command: '' @ command @ ''; stdout: '' @ out))
         else None)
      else None)"

subsection \<open>Terminators\<close>

definition getTerminators :: "Options \<Rightarrow> string \<Rightarrow> ExtractCommand \<Rightarrow> string list" where
  "getTerminators options prompt execution =
     (let terminators = [];
          terminators = (if length (Terminators execution) > 0
                         then terminators @ Terminators execution
                         else terminators @ OptTerminators options);
          terminators = terminators @ [''$ ''];
          superUserPrompt = Replace prompt (CHR ''$'') ''#'' 1;
          superUserPrompt = (if Contains superUserPrompt ''bash''
                             then drop 2 superUserPrompt else superUserPrompt);
          terminators = terminators @ [superUserPrompt];
          terminators = terminators @ Errors execution
      in terminators)"

subsection \<open>Environment variables and the working directory\<close>

text \<open>\<open>rumCommandTemplate\<close> formats the command and runs it with no listener, a timeout of
  1000 ms and no terminators; the callers below pass the formatted command.\<close>

definition rumCommandTemplate ::
  "shell \<Rightarrow> session \<Rightarrow> string \<Rightarrow> (string \<times> error option) \<times> session" where
  "rumCommandTemplate sh s command = SessionRun sh s command 1000 []"

definition setEnvVariable ::
  "collab \<Rightarrow> shell \<Rightarrow> ctx \<Rightarrow> session \<Rightarrow> string \<Rightarrow> string \<Rightarrow> error option \<times> session" where
  "setEnvVariable c sh ctx s name newValue =
     (let newValue = Expand c ctx newValue in
      if map_of (EnvVariables s) name = Some newValue then (None, s)
      else
        (let s = s\<lparr>EnvVariables := AList.update name newValue (EnvVariables s)\<rparr>;
             newValue = TrimSpace newValue;
             ((_, err), s) =
               (if Contains newValue '' ''
                then rumCommandTemplate sh s (''export '' @ name @ ''='' @ quote @ newValue @ quote)
                else rumCommandTemplate sh s (''export '' @ name @ ''='' @ newValue))
         in (err, s)))"

fun setEnvVariables ::
  "collab \<Rightarrow> shell \<Rightarrow> ctx \<Rightarrow> session \<Rightarrow> (string \<times> string) list \<Rightarrow> error option \<times> session" where
  "setEnvVariables c sh ctx s [] = (None, s)"
| "setEnvVariables c sh ctx s ((k, v) # env) =
     (case setEnvVariable c sh ctx s k v of
        (Some err, s) \<Rightarrow> (Some err, s)
      | (None, s) \<Rightarrow> setEnvVariables c sh ctx s env)"

definition changeDirectory ::
  "collab \<Rightarrow> shell \<Rightarrow> session \<Rightarrow> string \<Rightarrow> (string \<times> error option) \<times> session" where
  "changeDirectory c sh s directory =
     (if directory = [] then (([], None), s)
      else
        (let (parent, name) = pathSplit directory;
             directory = (if pathExt name \<noteq> [] then parent else directory);
             directory = (if length directory > 1 \<and> HasSuffix directory ''/''
                          then take (length directory - 1) directory else directory)
         in if CurrentDirectory s = directory then (([], None), s)
            else
              (let ((result, err), s) = rumCommandTemplate sh s (''cd '' @ directory) in
               case err of
                 Some e \<Rightarrow> (([], Some e), s)
               | None \<Rightarrow>
                   ((result, None),
                    if \<not> CheckNoSuchFileOrDirectory c result
                    then s\<lparr>CurrentDirectory := directory\<rparr> else s))))"

subsection \<open>Running a command, with one reconnection\<close>

definition run ::
  "collab \<Rightarrow> shell \<Rightarrow> ctx \<Rightarrow> session \<Rightarrow> string \<Rightarrow> int \<Rightarrow> string list
     \<Rightarrow> (string \<times> error option) \<times> session" where
  "run c sh ctx s command timeoutMs terminators =
     (let ((out, err), s) = SessionRun sh s command timeoutMs terminators in
      case err of
        None \<Rightarrow> ((out, None), s)
      | Some e \<Rightarrow>
          if e = ErrTerminated then
            (let (err, s) = SessionReconnect sh s in
             case err of
               Some e2 \<Rightarrow> (([], Some e2), s)
             | None \<Rightarrow>
                 (let currentDirectory = CurrentDirectory s;
                      env = EnvVariables s;
                      s = s\<lparr>EnvVariables := []\<rparr>;
                      s = s\<lparr>CurrentDirectory := []\<rparr>;
                      s = foldl (\<lambda>s (k, v). snd (setEnvVariable c sh ctx s k v)) s env;
                      (_, s) = changeDirectory c sh s currentDirectory
                  in SessionRun sh s command timeoutMs terminators))
          else ((out, Some e), s))"

definition commandAsSuperUser :: "session \<Rightarrow> string \<Rightarrow> string" where
  "commandAsSuperUser s command =
     (if Username s = ''root'' then command
      else if length command > 1 \<and> \<not> Contains command ''sudo'' then ''sudo '' @ command
      else command)"

definition retryWithSudo ::
  "collab \<Rightarrow> shell \<Rightarrow> ctx \<Rightarrow> session \<Rightarrow> string \<Rightarrow> int \<Rightarrow> string list
     \<Rightarrow> (string \<times> error option) \<times> session" where
  "retryWithSudo c sh ctx s command timeoutMs terminators =
     (let terminators = terminators @ [''Password''];
          command = commandAsSuperUser s command
      in run c sh ctx s command timeoutMs terminators)"

fun hasTerminator :: "string \<Rightarrow> string list \<Rightarrow> bool" where
  "hasTerminator out [] = False"
| "hasTerminator out (t # ts) = (if Contains out t then True else hasTerminator out ts)"

subsection \<open>The command executor\<close>

definition buildExecutionState :: "RunResponse \<Rightarrow> ctx \<Rightarrow> execution_state" where
  "buildExecutionState response ctx =
     \<lparr>stBase = ctx,
      stCmd = map (\<lambda>log. (Stdin log, Stdout log)) (Cmd response),
      stOutput = Output response,
      stStdout = (if length (Cmd response) > 0 then Stdout (last (Cmd response)) else [])\<rparr>"

abbreviation SudoCredentialKey :: string where
  "SudoCredentialKey \<equiv> ''**sudo**''"

text \<open>Modelled from the spec: \<open>NewExtractCommand\<close> is declared in contract.go, which is
  not among the sources; the sudo flow builds "a synthetic ExtractCommand whose Command is
  that placeholder" from a command, a \<open>When\<close> expression, the success and the error
  fragments.\<close>

definition NewExtractCommand ::
  "string \<Rightarrow> string \<Rightarrow> string list \<Rightarrow> string list \<Rightarrow> ExtractCommand" where
  "NewExtractCommand command when success errors =
     \<lparr>Command = command, When = when, TimeoutMs = 0, Terminators = [],
      Errors = errors, Success = success, Extract = []\<rparr>"

text \<open>The decimal rendering of \<open>%v\<close> for an \<open>int\<close>.\<close>

fun natDigits :: "nat \<Rightarrow> string" where
  "natDigits n =
     (if n < 10 then [char_of (48 + n)]
      else natDigits (n div 10) @ [char_of (48 + n mod 10)])"

declare natDigits.simps [simp del]

definition itoa :: "int \<Rightarrow> string" where
  "itoa i = (if i < 0 then ''-'' @ natDigits (nat (- i)) else natDigits (nat i))"

type_synonym exec_result = "error option \<times> ctx \<times> session \<times> RunResponse \<times> ExtractRequest"

text \<open>
  \<open>executeCommand\<close> and \<open>authSuperUserIfNeeded\<close> call each other: a shell that keeps
  answering "Sorry, try again." with a password prompt keeps the recursion going. The
  model bounds the depth of that recursion by fuel; \<open>None\<close> is "out of fuel".
  \<open>authSuperUserIfNeeded\<close> and the body of \<open>executeCommand\<close> take the executor of the
  next depth as \<open>exec\<close>. Publishing events (Begin, End, Publish) is left out.
\<close>

definition authSuperUserIfNeeded ::
  "(ctx \<Rightarrow> session \<Rightarrow> ExtractCommand \<Rightarrow> RunResponse \<Rightarrow> ExtractRequest \<Rightarrow> exec_result option)
     \<Rightarrow> collab \<Rightarrow> string \<Rightarrow> ctx \<Rightarrow> session \<Rightarrow> ExtractCommand \<Rightarrow> RunResponse \<Rightarrow> ExtractRequest
     \<Rightarrow> exec_result option" where
  "authSuperUserIfNeeded exec c out ctx s extractCommand response request =
     (if SuperUSerAuth s
         \<and> \<not> (EscapedContains c out ''Sorry, try again.'' \<and> EscapedContains c out ''Password'')
      then Some (None, ctx, s, response, request)
      else if EscapedContains c out ''Password'' then
        (let s = s\<lparr>SuperUSerAuth := True\<rparr>;
             request = (if length (Secrets request) = 0
                        then request\<lparr>Secrets := [(SudoCredentialKey, Credentials request)]\<rparr>
                        else request);
             extractCommand = NewExtractCommand SudoCredentialKey [] []
                                [''Password'', CommandNotFound c]
         in exec ctx s extractCommand response request)
      else Some (None, ctx, s, response, request))"

definition executeCommandBody ::
  "(ctx \<Rightarrow> session \<Rightarrow> ExtractCommand \<Rightarrow> RunResponse \<Rightarrow> ExtractRequest \<Rightarrow> exec_result option)
     \<Rightarrow> collab \<Rightarrow> shell \<Rightarrow> ctx \<Rightarrow> session \<Rightarrow> ExtractCommand \<Rightarrow> RunResponse \<Rightarrow> ExtractRequest
     \<Rightarrow> exec_result option" where
  "executeCommandBody exec c sh ctx s extractCommand response request =
     (let ctx = ctx(''os.user'' \<mapsto> Username s);
          securedCommand = Expand c ctx (Command extractCommand);
          options = ReqOptions request;
          terminators = getTerminators options (ShellPrompt sh (trace s)) extractCommand;
          isSuperUserCmd = (Contains securedCommand ''sudo '' \<or> SuperUser request)
      in
      if When extractCommand \<noteq> []
         \<and> \<not> fst (Evaluate c ctx (buildExecutionState response ctx) (When extractCommand))
      then
        (let err = snd (Evaluate c ctx (buildExecutionState response ctx) (When extractCommand))
         in Some (err, ctx, s, Add response (NewCommandLog securedCommand [] err), request))
      else
        (let securedCommand =
               (if When extractCommand = [] \<and> Contains securedCommand ''$''
                then ExpandAsText c (buildExecutionState response ctx) securedCommand
                else securedCommand);
             terminators = (if isSuperUserCmd \<and> \<not> SuperUSerAuth s
                            then terminators @ [''Password''] else terminators);
             securedCommand = (if isSuperUserCmd then commandAsSuperUser s securedCommand
                               else securedCommand)
         in
         case SecretsExpand c securedCommand (Secrets request) of
           Inl e \<Rightarrow> Some (Some e, ctx, s, response, request)
         | Inr insecureCommand \<Rightarrow>
             (let securedCommand = (if SecretReveal c then insecureCommand else securedCommand);
                  timeoutMs = (if TimeoutMs extractCommand > 0 then TimeoutMs extractCommand
                               else OptTimeoutMs options);
                  ((out, err), s) = run c sh ctx s insecureCommand timeoutMs terminators;
                  response =
                    (if length (Output response) > 0 \<and> \<not> HasSuffix (Output response) newline
                     then response\<lparr>Output := Output response @ newline\<rparr> else response);
                  retry = (AutoSudo request \<and> \<not> IsPermitted c out \<and> Username s \<noteq> ''root''
                           \<and> \<not> HasPrefix securedCommand ''sudo'');
                  ((out, err), s) =
                    (if retry
                     then retryWithSudo c sh ctx s insecureCommand (OptTimeoutMs options) terminators
                     else ((out, err), s));
                  isSuperUserCmd = (isSuperUserCmd \<or> retry)
              in
              case (if isSuperUserCmd
                    then authSuperUserIfNeeded exec c out ctx s extractCommand response request
                    else Some (None, ctx, s, response, request)) of
                None \<Rightarrow> None
              | Some (Some e, ctx, s, response, request) \<Rightarrow> Some (Some e, ctx, s, response, request)
              | Some (None, ctx, s, response, request) \<Rightarrow>
                  (let err = (if isSuperUserCmd then None else err);
                       response = response\<lparr>Output := Output response @ out\<rparr>;
                       (exitErr, s) =
                         (if CheckError request \<and> \<not> hasTerminator out terminators then
                            (let ((errorCode, err2), s) =
                                   run c sh ctx s ''echo $?'' (OptTimeoutMs options) terminators;
                                 exitStatus = AsInt c (TrimSpace errorCode)
                             in (if err2 = None \<and> exitStatus \<noteq> 0
                                 then Some (Errorf (''exit code: '' @ itoa exitStatus
                                                    @ '', command: '' @ securedCommand))
                                 else None, s))
                          else (None, s))
                   in
                   case exitErr of
                     Some e \<Rightarrow> Some (Some e, ctx, s, response, request)
                   | None \<Rightarrow>
                       (let response = Add response (NewCommandLog securedCommand out err) in
                        case err of
                          Some e \<Rightarrow> Some (Some e, ctx, s, response, request)
                        | None \<Rightarrow>
                            (case validateStdout c out securedCommand extractCommand of
                               Some e \<Rightarrow> Some (Some e, ctx, s, response, request)
                             | None \<Rightarrow>
                                 (let out = Stdout (last (Cmd response));
                                      (err, d) = ExtractRules c (Extract extractCommand)
                                                   (Data response) (Split out (CHR 0x0A))
                                  in Some (err, ctx, s, response\<lparr>Data := d\<rparr>, request))))))))"

primrec executeCommand ::
  "nat \<Rightarrow> collab \<Rightarrow> shell \<Rightarrow> ctx \<Rightarrow> session \<Rightarrow> ExtractCommand \<Rightarrow> RunResponse \<Rightarrow> ExtractRequest
     \<Rightarrow> exec_result option" where
  "executeCommand 0 c sh ctx s extractCommand response request = None"
| "executeCommand (Suc fuel) c sh ctx s extractCommand response request =
     executeCommandBody (executeCommand fuel c sh) c sh ctx s extractCommand response request"

subsection \<open>The sequence runner\<close>

definition applyCommandOptions ::
  "collab \<Rightarrow> shell \<Rightarrow> ctx \<Rightarrow> Options \<Rightarrow> session \<Rightarrow> error option \<times> session" where
  "applyCommandOptions c sh ctx options s =
     (let (err, s) =
            (if length (SystemPaths options) > 0 then
               (let s = s\<lparr>Path := Unshift c (Path s) (SystemPaths options)\<rparr>
                in setEnvVariable c sh ctx s ''PATH'' (EnvValue c (Path s)))
             else (None, s))
      in case err of
           Some e \<Rightarrow> (Some e, s)
         | None \<Rightarrow>
             (case setEnvVariables c sh ctx s (Env options) of
                (Some e, s) \<Rightarrow> (Some e, s)
              | (None, s) \<Rightarrow>
                  if Directory options \<noteq> [] then
                    (let directory = Expand c ctx (Directory options);
                         ((_, err), s) = changeDirectory c sh s directory
                     in (err, s))
                  else (None, s)))"

text \<open>
  The body of the loop of \<open>runExtractCommands\<close> over \<open>request.Commands\<close>: a bare \<open>cd\<close>
  and a bare \<open>export K=V\<close> are handled on the session, everything else goes to
  \<open>executeCommand\<close>. An error in the first component ends the loop (\<open>return nil, err\<close>).
\<close>

definition runExtractCommand ::
  "nat \<Rightarrow> collab \<Rightarrow> shell \<Rightarrow> ctx \<Rightarrow> session \<Rightarrow> ExtractCommand \<Rightarrow> RunResponse \<Rightarrow> ExtractRequest
     \<Rightarrow> exec_result option" where
  "runExtractCommand fuel c sh ctx s extractCommand response request =
     (let command = Expand c ctx (Command extractCommand);
          s = (if Contains command ''rm '' \<and> Contains command (CurrentDirectory s)
               then s\<lparr>CurrentDirectory := []\<rparr> else s)
      in
      if HasPrefix command ''cd '' \<and> \<not> Contains command ''&&'' then
        (let directory = TrimSpace (drop 3 command);
             ((out, err), s) = changeDirectory c sh s directory;
             response = Add response (NewCommandLog command out err);
             err = (if err = None then validateStdout c out command extractCommand else err)
         in Some (err, ctx, s, response, request))
      else
        (let s = (if HasPrefix command ''cd '' then s\<lparr>CurrentDirectory := []\<rparr> else s) in
         if HasPrefix command ''export '' \<and> \<not> Contains command ''&&''
            \<and> length (Split (drop 7 command) (CHR ''='')) = 2
         then
           (let keyValuePair = Split (drop 7 command) (CHR ''='');
                key = TrimSpace (keyValuePair ! 0);
                val = TrimSpace (keyValuePair ! 1);
                val = Trim val [CHR 0x27, CHR 0x22];
                (err, s) = setEnvVariable c sh ctx s key val;
                response = Add response (NewCommandLog command [] err)
            in Some (None, ctx, s, response, request))
         else
           (let s = (if HasPrefix command ''export '' then s\<lparr>EnvVariables := []\<rparr> else s)
            in executeCommand fuel c sh ctx s extractCommand response request)))"

fun runExtractCommandsLoop ::
  "nat \<Rightarrow> collab \<Rightarrow> shell \<Rightarrow> ctx \<Rightarrow> session \<Rightarrow> RunResponse \<Rightarrow> ExtractRequest \<Rightarrow> ExtractCommand list
     \<Rightarrow> ((error + RunResponse) \<times> ctx \<times> session \<times> ExtractRequest) option" where
  "runExtractCommandsLoop fuel c sh ctx s response request [] =
     Some (Inr response, ctx, s, request)"
| "runExtractCommandsLoop fuel c sh ctx s response request (extractCommand # rest) =
     (case runExtractCommand fuel c sh ctx s extractCommand response request of
        None \<Rightarrow> None
      | Some (Some e, ctx, s, response, request) \<Rightarrow> Some (Inl e, ctx, s, request)
      | Some (None, ctx, s, response, request) \<Rightarrow>
          runExtractCommandsLoop fuel c sh ctx s response request rest)"

text \<open>
  \<open>runExtractCommands\<close> from the point where the session is open: \<open>opened\<close> is the
  result of expanding the target and of \<open>openSession\<close>, whose transport is not modelled.
\<close>

definition runExtractCommands ::
  "nat \<Rightarrow> collab \<Rightarrow> shell \<Rightarrow> ctx \<Rightarrow> error + session \<Rightarrow> ExtractRequest
     \<Rightarrow> ((error + RunResponse) \<times> ctx \<times> session option \<times> ExtractRequest) option" where
  "runExtractCommands fuel c sh ctx opened request =
     (case opened of
        Inl e \<Rightarrow> Some (Inl e, ctx, None, request)
      | Inr s \<Rightarrow>
          (case applyCommandOptions c sh ctx (ReqOptions request) s of
             (Some e, s) \<Rightarrow> Some (Inl e, ctx, Some s, request)
           | (None, s) \<Rightarrow>
               (let response = NewRunResponse (ID s) in
                case runExtractCommandsLoop fuel c sh ctx s response request (Commands request) of
                  None \<Rightarrow> None
                | Some (r, ctx, s, request) \<Rightarrow> Some (r, ctx, Some s, request))))"

subsection \<open>Closing a session\<close>

text \<open>The pool is the map that \<open>TerminalSessions(context)\<close> returns. Closing the shell
  and the session are effects on the transport; \<open>closeSession\<close> reports them in order.\<close>

datatype closing = MultiCommandSessionClose string | SessionClose string

record CloseSessionRequest =
  SessionID :: string

record CloseSessionResponse =
  ClosedSessionID :: string

definition closeSession ::
  "(string \<rightharpoonup> session) \<Rightarrow> CloseSessionRequest
     \<Rightarrow> (CloseSessionResponse \<times> error option) \<times> (string \<rightharpoonup> session) \<times> closing list" where
  "closeSession clientSessions request =
     (case clientSessions (SessionID request) of
        Some s \<Rightarrow>
          ((\<lparr>ClosedSessionID = SessionID request\<rparr>, None),
           clientSessions(SessionID request := None),
           [MultiCommandSessionClose (ID s), SessionClose (ID s)])
      | None \<Rightarrow> ((\<lparr>ClosedSessionID = SessionID request\<rparr>, None), clientSessions, []))"

subsection \<open>Detecting the user\<close>

definition extractOsUser :: "collab \<Rightarrow> shell \<Rightarrow> session \<Rightarrow> error option \<times> session" where
  "extractOsUser c sh s =
     (let ((out, err), s) = SessionRun sh s ''echo $USER'' 0 [] in
      case err of
        Some e \<Rightarrow> (Some e, s)
      | None \<Rightarrow>
          (let out = EscapeStdout c out;
               _ = Replace out (CHR 0x0A) [] (length out)
           in (None, s\<lparr>Username := out\<rparr>)))"

subsection \<open>Names for the commands that the session helpers send\<close>

text \<open>
  \<open>exportCommand\<close> is the command text of \<open>setEnvVariable\<close> (the trimmed value, in
  single quotes when it contains a space); \<open>cdTarget\<close> is the directory that
  \<open>changeDirectory\<close> settles on (the parent when the last element has an extension,
  then without one trailing slash unless it is a single character); \<open>cdCommand\<close> is the
  command text of \<open>changeDirectory\<close>. The lemmas \<open>setEnvVariable_export\<close> and
  \<open>changeDirectory_unfold\<close> tie them to the functions.
\<close>

definition exportCommand :: "string \<Rightarrow> string \<Rightarrow> string" where
  "exportCommand name newValue =
     (let newValue = TrimSpace newValue in
      if Contains newValue '' '' then ''export '' @ name @ ''='' @ quote @ newValue @ quote
      else ''export '' @ name @ ''='' @ newValue)"

definition cdTarget :: "string \<Rightarrow> string" where
  "cdTarget directory =
     (let (parent, name) = pathSplit directory;
          directory = (if pathExt name \<noteq> [] then parent else directory)
      in if length directory > 1 \<and> HasSuffix directory ''/''
         then take (length directory - 1) directory else directory)"

definition cdCommand :: "string \<Rightarrow> string" where
  "cdCommand directory = ''cd '' @ directory"

text \<open>\<open>reexports\<close> are the export commands that \<open>run\<close> sends after a reconnection, one
  for each cached variable in the order of the \<open>range\<close>; \<open>recd\<close> is what it sends to
  restore the working directory (nothing when \<open>cdTarget\<close> of the directory is empty).\<close>

definition reexports :: "collab \<Rightarrow> ctx \<Rightarrow> (string \<times> string) list \<Rightarrow> event list" where
  "reexports c ctx env = map (\<lambda>(k, v). RunEv (exportCommand k (Expand c ctx v)) 1000 []) env"

definition recd :: "string \<Rightarrow> event list" where
  "recd directory =
     (if cdTarget directory = [] then [] else [RunEv (cdCommand (cdTarget directory)) 1000 []])"

text \<open>In the loop of \<open>runExtractCommands\<close>: \<open>forgetRemoved\<close> is the reset of the
  working directory before a command that contains \<open>rm \<close> and the directory;
  \<open>bareExport\<close> holds for the command texts that the loop hands to \<open>setEnvVariable\<close>,
  and \<open>exportPair\<close> is the name and the value it passes.\<close>

definition forgetRemoved :: "string \<Rightarrow> session \<Rightarrow> session" where
  "forgetRemoved command s =
     (if Contains command ''rm '' \<and> Contains command (CurrentDirectory s)
      then s\<lparr>CurrentDirectory := []\<rparr> else s)"

definition exportPair :: "string \<Rightarrow> string \<times> string" where
  "exportPair command =
     (let keyValuePair = Split (drop 7 command) (CHR ''='')
      in (TrimSpace (keyValuePair ! 0), Trim (TrimSpace (keyValuePair ! 1)) [CHR 0x27, CHR 0x22]))"

definition bareExport :: "string \<Rightarrow> bool" where
  "bareExport command =
     (HasPrefix command ''export '' \<and> \<not> Contains command ''&&''
      \<and> length (Split (drop 7 command) (CHR ''='')) = 2)"

text \<open>\<open>securedCommandText\<close> is the command text that \<open>executeCommand\<close> hands
  to the expansion of the secrets: the expanded command, expanded once more as text when
  there is no \<open>When\<close> and it contains \<open>$\<close>, and put under sudo when it is a
  superuser command.\<close>

definition securedCommandText ::
  "collab \<Rightarrow> ctx \<Rightarrow> session \<Rightarrow> ExtractCommand \<Rightarrow> RunResponse \<Rightarrow> ExtractRequest \<Rightarrow> string" where
  "securedCommandText c ctx s extractCommand response request =
     (let ctx = ctx(''os.user'' \<mapsto> Username s);
          securedCommand = Expand c ctx (Command extractCommand);
          isSuperUserCmd = (Contains securedCommand ''sudo '' \<or> SuperUser request);
          securedCommand =
            (if When extractCommand = [] \<and> Contains securedCommand ''$''
             then ExpandAsText c (buildExecutionState response ctx) securedCommand
             else securedCommand)
      in if isSuperUserCmd then commandAsSuperUser s securedCommand else securedCommand)"

subsection \<open>The executor in phases\<close>

text \<open>
  For the proofs the body of \<open>executeCommand\<close> is read in three phases: the
  preparation of the command (in \<open>executeCommandBody\<close> itself), \<open>runAndComplete\<close>
  from the call of \<open>run\<close> to the sudo password flow, and \<open>completeCommand\<close> from
  \<open>response.Output += stdout\<close> to the extraction. The lemma
  \<open>executeCommandBody_unfold\<close> shows that the phases put together are the body.
  \<open>separated\<close> is the output after the executor has made sure that it ends with a
  newline, unless it is empty.
\<close>

definition separated :: "string \<Rightarrow> string" where
  "separated out = (if length out > 0 \<and> \<not> HasSuffix out newline then out @ newline else out)"

definition completeCommand ::
  "collab \<Rightarrow> shell \<Rightarrow> ctx \<Rightarrow> session \<Rightarrow> ExtractCommand \<Rightarrow> Options \<Rightarrow> string list \<Rightarrow> string
     \<Rightarrow> string \<Rightarrow> error option \<Rightarrow> bool \<Rightarrow> RunResponse \<Rightarrow> ExtractRequest \<Rightarrow> exec_result option" where
  "completeCommand c sh ctx s extractCommand options terminators securedCommand out err
       isSuperUserCmd response request =
     (let err = (if isSuperUserCmd then None else err);
          response = response\<lparr>Output := Output response @ out\<rparr>;
          (exitErr, s) =
            (if CheckError request \<and> \<not> hasTerminator out terminators then
               (let ((errorCode, err2), s) =
                      run c sh ctx s ''echo $?'' (OptTimeoutMs options) terminators;
                    exitStatus = AsInt c (TrimSpace errorCode)
                in (if err2 = None \<and> exitStatus \<noteq> 0
                    then Some (Errorf (''exit code: '' @ itoa exitStatus
                                       @ '', command: '' @ securedCommand))
                    else None, s))
             else (None, s))
      in
      case exitErr of
        Some e \<Rightarrow> Some (Some e, ctx, s, response, request)
      | None \<Rightarrow>
          (let response = Add response (NewCommandLog securedCommand out err) in
           case err of
             Some e \<Rightarrow> Some (Some e, ctx, s, response, request)
           | None \<Rightarrow>
               (case validateStdout c out securedCommand extractCommand of
                  Some e \<Rightarrow> Some (Some e, ctx, s, response, request)
                | None \<Rightarrow>
                    (let out = Stdout (last (Cmd response));
                         (err, d) = ExtractRules c (Extract extractCommand)
                                      (Data response) (Split out (CHR 0x0A))
                     in Some (err, ctx, s, response\<lparr>Data := d\<rparr>, request)))))"

definition runAndComplete ::
  "(ctx \<Rightarrow> session \<Rightarrow> ExtractCommand \<Rightarrow> RunResponse \<Rightarrow> ExtractRequest \<Rightarrow> exec_result option)
     \<Rightarrow> collab \<Rightarrow> shell \<Rightarrow> ctx \<Rightarrow> session \<Rightarrow> ExtractCommand \<Rightarrow> Options \<Rightarrow> string list \<Rightarrow> string
     \<Rightarrow> string \<Rightarrow> int \<Rightarrow> bool \<Rightarrow> RunResponse \<Rightarrow> ExtractRequest \<Rightarrow> exec_result option" where
  "runAndComplete exec c sh ctx s extractCommand options terminators securedCommand
       insecureCommand timeoutMs isSuperUserCmd response request =
     (let ((out, err), s) = run c sh ctx s insecureCommand timeoutMs terminators;
          response = response\<lparr>Output := separated (Output response)\<rparr>;
          retry = (AutoSudo request \<and> \<not> IsPermitted c out \<and> Username s \<noteq> ''root''
                   \<and> \<not> HasPrefix securedCommand ''sudo'');
          ((out, err), s) =
            (if retry
             then retryWithSudo c sh ctx s insecureCommand (OptTimeoutMs options) terminators
             else ((out, err), s));
          isSuperUserCmd = (isSuperUserCmd \<or> retry)
      in
      case (if isSuperUserCmd
            then authSuperUserIfNeeded exec c out ctx s extractCommand response request
            else Some (None, ctx, s, response, request)) of
        None \<Rightarrow> None
      | Some (Some e, ctx, s, response, request) \<Rightarrow> Some (Some e, ctx, s, response, request)
      | Some (None, ctx, s, response, request) \<Rightarrow>
          completeCommand c sh ctx s extractCommand options terminators securedCommand
            out err isSuperUserCmd response request)"

subsection \<open>How the output relates to the command log\<close>

text \<open>
  The loop of \<open>runExtractCommands\<close> handles a bare \<open>cd\<close> (\<open>bareCd\<close>) and a bare
  \<open>export\<close> (\<open>bareExport\<close>) itself, and the executor skips a command whose \<open>When\<close>
  is not met (\<open>suppressed\<close>; \<open>When\<close> is evaluated in the state that has \<open>os.user\<close>
  set). Every other command is \<open>executed\<close>: the executor sends it to the shell.

  \<open>contributions\<close> follows the loop over the commands and lists, for each command in
  order, whether it was executed and which entries its processing appended to \<open>Cmd\<close>;
  it stops where the loop stops. \<open>outputOfSteps\<close> builds an output from such a list:
  the entries of an executed command add their stdouts, concatenated, after the output
  so far has been \<open>separated\<close>; the entries of any other command add nothing.
\<close>

definition bareCd :: "string \<Rightarrow> bool" where
  "bareCd command = (HasPrefix command ''cd '' \<and> \<not> Contains command ''&&'')"

definition suppressed :: "collab \<Rightarrow> ctx \<Rightarrow> session \<Rightarrow> ExtractCommand \<Rightarrow> RunResponse \<Rightarrow> bool" where
  "suppressed c ctx s x response =
     (let ctx = ctx(''os.user'' \<mapsto> Username s)
      in When x \<noteq> [] \<and> \<not> fst (Evaluate c ctx (buildExecutionState response ctx) (When x)))"

definition executed :: "collab \<Rightarrow> ctx \<Rightarrow> session \<Rightarrow> ExtractCommand \<Rightarrow> RunResponse \<Rightarrow> bool" where
  "executed c ctx s x response =
     (let command = Expand c ctx (Command x)
      in \<not> bareCd command \<and> \<not> bareExport command \<and> \<not> suppressed c ctx s x response)"

fun contributions ::
  "nat \<Rightarrow> collab \<Rightarrow> shell \<Rightarrow> ctx \<Rightarrow> session \<Rightarrow> RunResponse \<Rightarrow> ExtractRequest \<Rightarrow> ExtractCommand list
     \<Rightarrow> (bool \<times> CommandLog list) list" where
  "contributions fuel c sh ctx s response request [] = []"
| "contributions fuel c sh ctx s response request (extractCommand # rest) =
     (case runExtractCommand fuel c sh ctx s extractCommand response request of
        None \<Rightarrow> []
      | Some (Some e, ctx', s', response', request') \<Rightarrow> []
      | Some (None, ctx', s', response', request') \<Rightarrow>
          (executed c ctx s extractCommand response,
           drop (length (Cmd response)) (Cmd response'))
          # contributions fuel c sh ctx' s' response' request' rest)"

fun outputOfSteps :: "string \<Rightarrow> (bool \<times> CommandLog list) list \<Rightarrow> string" where
  "outputOfSteps out [] = out"
| "outputOfSteps out ((sent, entries) # steps) =
     outputOfSteps (if sent then separated out @ concat (map Stdout entries) else out) steps"

text \<open>One step, between the response before and after it: \<open>executes\<close> for an executed
  command, \<open>skips\<close> for any other.\<close>

definition executes :: "RunResponse \<Rightarrow> RunResponse \<Rightarrow> bool" where
  "executes r r' =
     (\<exists>entries. entries \<noteq> [] \<and> Cmd r' = Cmd r @ entries
        \<and> Output r' = separated (Output r) @ concat (map Stdout entries))"

definition skips :: "RunResponse \<Rightarrow> RunResponse \<Rightarrow> bool" where
  "skips r r' = (\<exists>log. Cmd r' = Cmd r @ [log] \<and> Output r' = Output r)"

subsection \<open>The claims in the words of the specification\<close>

text \<open>The terminator list as the specification words it: the command's terminators or
  else the options', the literal \<open>$ \<close>, the prompt with \<open>$\<close> replaced by \<open>#\<close> and
  with "the bash prefix, if present on the prompt string, stripped", and the error
  fragments.\<close>

definition specTerminators :: "Options \<Rightarrow> string \<Rightarrow> ExtractCommand \<Rightarrow> string list" where
  "specTerminators options prompt execution =
     (if Terminators execution \<noteq> [] then Terminators execution else OptTerminators options)
     @ [''$ '']
     @ [let p = Replace prompt (CHR ''$'') ''#'' 1 in if HasPrefix p ''bash'' then drop 4 p else p]
     @ Errors execution"

text \<open>The output as the specification words it, for a log without entries suppressed
  by \<open>When\<close>: the newline-join of the stdouts of the log.\<close>

definition specOutput :: "RunResponse \<Rightarrow> string" where
  "specOutput response = Join (map Stdout (Cmd response)) newline"

subsection \<open>Concrete collaborators, shells and sessions for evaluation\<close>

text \<open>
  Modelled from the spec: the helpers of package util and the other collaborators are not
  among the sources. \<open>plain\<close> is what they do on plain text, where there is nothing to
  expand, no secret and no escape sequence: "matches are substring checks on the
  accumulated stdout", a failed \<open>cd\<close> shows as "No such file or directory" in stdout,
  the path list takes new directories at the front. It is used at concrete inputs only.
\<close>

definition plain :: collab where
  "plain =
     \<lparr>Expand = (\<lambda>ctx t. t),
      ExpandAsText = (\<lambda>st t. t),
      Evaluate = (\<lambda>ctx st w. (False, None)),
      SecretsExpand = (\<lambda>t secrets. Inr t),
      SecretReveal = False,
      IsPermitted = (\<lambda>out. \<not> Contains out ''Permission denied''),
      EscapedContains = Contains,
      EscapeStdout = (\<lambda>out. out),
      CheckNoSuchFileOrDirectory = (\<lambda>out. Contains out ''No such file or directory''),
      CommandNotFound = ''not found'',
      ExtractRules = (\<lambda>rules d lines. (None, d)),
      AsInt = (\<lambda>t. 0),
      Unshift = (\<lambda>path paths. rev paths @ path),
      EnvValue = (\<lambda>path. Join path '':'')\<rparr>"

text \<open>A shell whose answer depends on the command only, and that reconnects.\<close>

definition scripted :: "(string \<Rightarrow> string \<times> error option) \<Rightarrow> shell" where
  "scripted answer =
     \<lparr>respond = (\<lambda>tr. case last tr of RunEv command t ts \<Rightarrow> answer command
                              | ReconnectEv \<Rightarrow> ([], None)),
      reconnected = (\<lambda>tr. None),
      ShellPrompt = (\<lambda>tr. ''$ '')\<rparr>"

definition fresh :: session where
  "fresh = \<lparr>ID = ''127.0.0.1:22'', Username = ''dev'', SuperUSerAuth = False,
            CurrentDirectory = [], EnvVariables = [], Path = [], trace = []\<rparr>"

definition noOptions :: Options where
  "noOptions = \<lparr>Env = [], SystemPaths = [], Directory = [], OptTimeoutMs = 0, OptTerminators = []\<rparr>"

definition plainCommand :: "string \<Rightarrow> ExtractCommand" where
  "plainCommand command = NewExtractCommand command [] [] []"

definition checked :: ExtractCommand where
  "checked = NewExtractCommand ''make'' [] [''ok''] [''error'']"

definition emptyFragment :: ExtractCommand where
  "emptyFragment = NewExtractCommand ''make'' [] [''ok''] ['''', ''error'']"

definition obliging :: shell where
  "obliging = scripted (\<lambda>command. ([], None))"

text \<open>The same shell with the prompt of a bash.\<close>

definition bashPrompt :: shell where
  "bashPrompt = obliging\<lparr>ShellPrompt := (\<lambda>tr. ''bash-3.2$ '')\<rparr>"

definition failing :: shell where
  "failing = scripted (\<lambda>command. ([], Some (Errorf ''timeout'')))"

definition missing :: shell where
  "missing = scripted (\<lambda>command. (''cd: /nope: No such file or directory'', None))"

definition cached :: session where
  "cached = fresh\<lparr>EnvVariables := [(''K'', ''v'')]\<rparr>"

text \<open>A shell that has lost its connection and answers again after a reconnection, and
  one that cannot be reached again.\<close>

definition dropping :: shell where
  "dropping =
     \<lparr>respond = (\<lambda>tr. if ReconnectEv \<in> set tr then (''ok'', None) else ([], Some ErrTerminated)),
      reconnected = (\<lambda>tr. None),
      ShellPrompt = (\<lambda>tr. ''$ '')\<rparr>"

definition unreachable :: shell where
  "unreachable =
     \<lparr>respond = (\<lambda>tr. ([], Some ErrTerminated)),
      reconnected = (\<lambda>tr. Some (Errorf ''connection refused'')),
      ShellPrompt = (\<lambda>tr. ''$ '')\<rparr>"

definition settled :: session where
  "settled = fresh\<lparr>CurrentDirectory := ''/tmp'', EnvVariables := [(''A'', ''1''), (''B'', ''x y'')]\<rparr>"

definition noRequest :: ExtractRequest where
  "noRequest = \<lparr>Credentials = [], ReqOptions = noOptions, Commands = [], Secrets = [],
                 SuperUser = False, AutoSudo = False, CheckError = False\<rparr>"

definition twoCommands :: ExtractRequest where
  "twoCommands = noRequest\<lparr>Commands := [plainCommand ''true'', plainCommand ''echo hi'']\<rparr>"

definition echoing :: shell where
  "echoing = scripted (\<lambda>command. if command = ''echo hi'' then (''hi'', None) else ([], None))"

text \<open>A shell that denies the permission to \<open>ls\<close>, and a request that retries
  under sudo.\<close>

definition denying :: shell where
  "denying =
     scripted (\<lambda>command. if command = ''ls'' then (''ls: Permission denied'', None)
                         else ([], None))"

definition autoSudo :: ExtractRequest where
  "autoSudo = noRequest\<lparr>AutoSudo := True\<rparr>"

text \<open>Projections of results, for the statements at concrete inputs.\<close>

definition responseOf ::
  "((error + RunResponse) \<times> ctx \<times> session option \<times> ExtractRequest) option \<Rightarrow> RunResponse option" where
  "responseOf result = (case result of Some (Inr response, rest) \<Rightarrow> Some response | _ \<Rightarrow> None)"

definition sessionOf :: "exec_result option \<Rightarrow> session option" where
  "sessionOf result = (case result of Some (err, ctx, s, rest) \<Rightarrow> Some s | None \<Rightarrow> None)"

section \<open>Theorems\<close>

subsection \<open>Stdout validation\<close>

lemma match_in_set:
  "match c out candidates \<noteq> [] \<Longrightarrow>
     match c out candidates \<in> set candidates \<and> EscapedContains c out (match c out candidates)"
  by (induction candidates) auto

lemma match_found:
  "e \<in> set candidates \<Longrightarrow> EscapedContains c out e \<Longrightarrow> [] \<notin> set candidates \<Longrightarrow>
     match c out candidates \<noteq> []"
  by (induction candidates) auto

text \<open>
  C7 (as amended): error fragments are checked before success fragments. When no error
  fragment of the command is the empty string and some error fragment is contained in
  stdout (escape-sequence-insensitively), \<open>validateStdout\<close> returns the failure
  "encounter error fragment: (f), ..." for an error fragment \<open>f\<close> contained in stdout,
  whatever the success fragments are.
\<close>

theorem validateStdout_error_precedence:
  assumes "e \<in> set (Errors execution)" and "EscapedContains c out e"
    and "[] \<notin> set (Errors execution)"
  shows "\<exists>f. f \<in> set (Errors execution) \<and> EscapedContains c out f
           \<and> validateStdout c out command execution =
               Some (Errorf (''encounter error fragment: ('' @ f @ ''), command:'' @ command
                             @ '', stdout: '' @ out))"
proof -
  let ?f = "match c out (Errors execution)"
  have ne: "?f \<noteq> []" using assms by (rule match_found)
  then have "?f \<in> set (Errors execution) \<and> EscapedContains c out ?f"
    by (rule match_in_set)
  moreover have "validateStdout c out command execution =
      Some (Errorf (''encounter error fragment: ('' @ ?f @ ''), command:'' @ command
                    @ '', stdout: '' @ out))"
    using ne by (simp add: validateStdout_def Let_def)
  ultimately show ?thesis by blast
qed

theorem validateStdout_error_precedence_witness:
  "''error'' \<in> set (Errors checked) \<and> EscapedContains plain ''error ok'' ''error''
   \<and> Contains ''error ok'' ''ok'' \<and> [] \<notin> set (Errors checked)
   \<and> validateStdout plain ''error ok'' ''make'' checked =
       Some (Errorf ''encounter error fragment: (error), command:make, stdout: error ok'')"
proof -
  have h1: "''error'' \<in> set (Errors checked)" by (simp add: checked_def NewExtractCommand_def)
  have h2: "EscapedContains plain ''error ok'' ''error''" by (simp add: plain_def)
  have h3: "[] \<notin> set (Errors checked)" by (simp add: checked_def NewExtractCommand_def)
  from validateStdout_error_precedence [OF h1 h2 h3, of "''make''"]
  show ?thesis using h1 h2 h3 by (auto simp: checked_def NewExtractCommand_def)
qed

text \<open>C7 as stated fails when an empty error fragment comes first: \<open>match\<close> returns it,
  the caller reads the empty string as "no match", and the error fragment \<open>error\<close>,
  which is in stdout, is not reported.\<close>

theorem validateStdout_empty_fragment_counterexample:
  "''error'' \<in> set (Errors emptyFragment) \<and> EscapedContains plain ''error ok'' ''error''
   \<and> ''ok'' \<in> set (Success emptyFragment) \<and> EscapedContains plain ''error ok'' ''ok''
   \<and> validateStdout plain ''error ok'' ''make'' emptyFragment = None"
  by (simp add: emptyFragment_def NewExtractCommand_def plain_def validateStdout_def Let_def)

subsection \<open>The user name\<close>

text \<open>
  C8: when \<open>echo $USER\<close> runs without error, \<open>extractOsUser\<close> stores the escaped stdout
  as \<open>Username\<close> exactly as \<open>EscapeStdout\<close> returned it, newline characters included:
  the result of the newline replacement is discarded.
\<close>

theorem extractOsUser_keeps_newlines:
  assumes "snd (respond sh (trace s @ [RunEv ''echo $USER'' 0 []])) = None"
  shows "extractOsUser c sh s =
           (None, s\<lparr>trace := trace s @ [RunEv ''echo $USER'' 0 []],
                     Username := EscapeStdout c
                       (fst (respond sh (trace s @ [RunEv ''echo $USER'' 0 []])))\<rparr>)"
  using assms
  by (cases "respond sh (trace s @ [RunEv ''echo $USER'' 0 []])")
     (simp add: extractOsUser_def SessionRun_def Let_def)

theorem extractOsUser_keeps_newlines_witness:
  "snd (respond (scripted (\<lambda>command. (''dev'' @ newline, None)))
          (trace fresh @ [RunEv ''echo $USER'' 0 []])) = None
   \<and> Username (snd (extractOsUser plain (scripted (\<lambda>command. (''dev'' @ newline, None))) fresh))
       = ''dev'' @ newline"
proof -
  have h: "snd (respond (scripted (\<lambda>command. (''dev'' @ newline, None)))
          (trace fresh @ [RunEv ''echo $USER'' 0 []])) = None"
    by (simp add: scripted_def)
  show ?thesis
    using h extractOsUser_keeps_newlines [OF h, of plain]
    by (simp add: scripted_def plain_def fresh_def)
qed

subsection \<open>Closing a session\<close>

text \<open>
  C9: \<open>closeSession\<close> always returns a response with the request's session id and a nil
  error. When the id is not in the pool, nothing is closed and the pool is unchanged.
  A second close of the same id, after any first close, closes nothing, leaves the pool
  as it is and succeeds.
\<close>

theorem closeSession_absent:
  "(clientSessions (SessionID request) = None \<longrightarrow>
      closeSession clientSessions request =
        ((\<lparr>ClosedSessionID = SessionID request\<rparr>, None), clientSessions, []))
   \<and> fst (closeSession clientSessions request) = (\<lparr>ClosedSessionID = SessionID request\<rparr>, None)
   \<and> closeSession (fst (snd (closeSession clientSessions request))) request =
        ((\<lparr>ClosedSessionID = SessionID request\<rparr>, None),
         fst (snd (closeSession clientSessions request)), [])"
  by (auto simp: closeSession_def split: option.splits)

theorem closeSession_absent_witness:
  "(Map.empty :: string \<rightharpoonup> session) (SessionID \<lparr>SessionID = ''gone''\<rparr>) = None
   \<and> closeSession Map.empty \<lparr>SessionID = ''gone''\<rparr> =
        ((\<lparr>ClosedSessionID = ''gone''\<rparr>, None), Map.empty, [])"
  using closeSession_absent [of Map.empty "\<lparr>SessionID = ''gone''\<rparr>"] by simp

subsection \<open>Environment variables\<close>

lemma scripted_respond [simp]:
  "respond (scripted answer) tr =
     (case last tr of RunEv command t ts \<Rightarrow> answer command | ReconnectEv \<Rightarrow> ([], None))"
  by (simp add: scripted_def)

lemma setEnvVariable_cached:
  "map_of (EnvVariables s) name = Some (Expand c ctx newValue) \<Longrightarrow>
     setEnvVariable c sh ctx s name newValue = (None, s)"
  by (simp add: setEnvVariable_def Let_def)

lemma setEnvVariable_export:
  "map_of (EnvVariables s) name \<noteq> Some (Expand c ctx newValue) \<Longrightarrow>
     setEnvVariable c sh ctx s name newValue =
       (snd (respond sh (trace s @ [RunEv (exportCommand name (Expand c ctx newValue)) 1000 []])),
        s\<lparr>EnvVariables := AList.update name (Expand c ctx newValue) (EnvVariables s),
          trace := trace s @ [RunEv (exportCommand name (Expand c ctx newValue)) 1000 []]\<rparr>)"
  by (simp add: setEnvVariable_def exportCommand_def rumCommandTemplate_def SessionRun_def
      Let_def split: prod.splits)

text \<open>White space outside ASCII is trimmed as Go trims it: the value \<open>v\<close> followed by
  a no-break space (U+00A0, the bytes C2 A0) is cached as it is and exported as \<open>v\<close>;
  a byte A0 that is no encoding of a code point stays.\<close>

lemma TrimSpace_examples:
  "TrimSpace ''  a b  '' = ''a b''"
  "TrimSpace (''v'' @ [CHR 0xC2, CHR 0xA0]) = ''v''"
  "TrimSpace ([CHR 0xE2, CHR 0x80, CHR 0x83] @ ''v'' @ [CHR 0xC2, CHR 0x85, CHR 0x0A]) = ''v''"
  "TrimSpace ([CHR 0xA0] @ ''v'') = [CHR 0xA0] @ ''v''"
  by (simp_all add: TrimSpace_def dropRunes.simps spaceRunes_def)

lemma setEnvVariable_no_break_space:
  "setEnvVariable plain obliging Map.empty fresh ''K'' (''v'' @ [CHR 0xC2, CHR 0xA0])
     = (None, fresh\<lparr>EnvVariables := [(''K'', ''v'' @ [CHR 0xC2, CHR 0xA0])],
                     trace := [RunEv ''export K=v'' 1000 []]\<rparr>)"
proof -
  have "map_of (EnvVariables fresh) ''K''
      \<noteq> Some (Expand plain Map.empty (''v'' @ [CHR 0xC2, CHR 0xA0]))"
    by (simp add: fresh_def)
  from setEnvVariable_export [OF this, of obliging] show ?thesis
    by (simp add: plain_def exportCommand_def TrimSpace_def dropRunes.simps spaceRunes_def
        obliging_def fresh_def)
qed

text \<open>
  C3 (as amended): a call of \<open>setEnvVariable\<close> with a value whose expansion differs from
  the cached one stores the expanded value in \<open>EnvVariables\<close> before it sends the export
  command, and the value stays cached whatever the export returns; the command is sent
  once and its error, if any, is returned.
\<close>

theorem setEnvVariable_caches_first:
  assumes "map_of (EnvVariables s) name \<noteq> Some (Expand c ctx newValue)"
  shows "map_of (EnvVariables (snd (setEnvVariable c sh ctx s name newValue)))
           = (map_of (EnvVariables s))(name \<mapsto> Expand c ctx newValue)
         \<and> trace (snd (setEnvVariable c sh ctx s name newValue))
           = trace s @ [RunEv (exportCommand name (Expand c ctx newValue)) 1000 []]
         \<and> fst (setEnvVariable c sh ctx s name newValue)
           = snd (respond sh (trace s @ [RunEv (exportCommand name (Expand c ctx newValue)) 1000 []]))"
  by (simp add: setEnvVariable_export [OF assms] update_conv')

theorem setEnvVariable_caches_first_witness:
  "map_of (EnvVariables fresh) ''K'' \<noteq> Some (Expand plain Map.empty ''a b'')
   \<and> map_of (EnvVariables (snd (setEnvVariable plain failing Map.empty fresh ''K'' ''a b''))) ''K''
       = Some ''a b''
   \<and> trace (snd (setEnvVariable plain failing Map.empty fresh ''K'' ''a b''))
       = [RunEv (''export K='' @ quote @ ''a b'' @ quote) 1000 []]
   \<and> fst (setEnvVariable plain failing Map.empty fresh ''K'' ''a b'') = Some (Errorf ''timeout'')"
proof -
  have h: "map_of (EnvVariables fresh) ''K'' \<noteq> Some (Expand plain Map.empty ''a b'')"
    by (simp add: fresh_def)
  show ?thesis
    using h setEnvVariable_caches_first [OF h, of failing]
    by (simp add: fresh_def plain_def failing_def exportCommand_def TrimSpace_def dropRunes.simps spaceRunes_def)
qed

text \<open>C3 as stated fails when the export fails: the error is returned and the new
  value is in the cache all the same.\<close>

theorem setEnvVariable_failed_export_counterexample:
  "fst (setEnvVariable plain failing Map.empty fresh ''K'' ''v'') = Some (Errorf ''timeout'')
   \<and> EnvVariables fresh = []
   \<and> EnvVariables (snd (setEnvVariable plain failing Map.empty fresh ''K'' ''v'')) = [(''K'', ''v'')]"
  by (simp add: setEnvVariable_def fresh_def plain_def failing_def
      rumCommandTemplate_def SessionRun_def TrimSpace_def dropRunes.simps spaceRunes_def Let_def)

subsection \<open>The working directory\<close>

lemma changeDirectory_unfold:
  "changeDirectory c sh s directory =
     (if directory = [] \<or> CurrentDirectory s = cdTarget directory then (([], None), s)
      else
        (let ((result, err), s) = rumCommandTemplate sh s (cdCommand (cdTarget directory)) in
         case err of
           Some e \<Rightarrow> (([], Some e), s)
         | None \<Rightarrow>
             ((result, None),
              if \<not> CheckNoSuchFileOrDirectory c result
              then s\<lparr>CurrentDirectory := cdTarget directory\<rparr> else s)))"
  unfolding changeDirectory_def cdTarget_def cdCommand_def Let_def
  by (cases "pathSplit directory") (simp only: prod.case One_nat_def split: if_splits, simp)

lemma changeDirectory_same:
  "directory = [] \<or> CurrentDirectory s = cdTarget directory \<Longrightarrow>
     changeDirectory c sh s directory = (([], None), s)"
  by (simp add: changeDirectory_unfold)

lemma changeDirectory_runs:
  assumes "directory \<noteq> []" and "CurrentDirectory s \<noteq> cdTarget directory"
    and "respond sh (trace s @ [RunEv (cdCommand (cdTarget directory)) 1000 []]) = (result, err)"
  shows "changeDirectory c sh s directory =
     (case err of
        Some e \<Rightarrow>
          (([], Some e), s\<lparr>trace := trace s @ [RunEv (cdCommand (cdTarget directory)) 1000 []]\<rparr>)
      | None \<Rightarrow>
          ((result, None),
           if CheckNoSuchFileOrDirectory c result
           then s\<lparr>trace := trace s @ [RunEv (cdCommand (cdTarget directory)) 1000 []]\<rparr>
           else s\<lparr>trace := trace s @ [RunEv (cdCommand (cdTarget directory)) 1000 []],
                  CurrentDirectory := cdTarget directory\<rparr>))"
  using assms
  by (simp add: changeDirectory_unfold rumCommandTemplate_def SessionRun_def Let_def
      split: option.splits)

lemma cdTarget_examples:
  "cdTarget ''/tmp/'' = ''/tmp''" "cdTarget ''/opt/app/conf.json'' = ''/opt/app''"
  "cdTarget ''/'' = ''/''" "cdTarget ''/nope'' = ''/nope''"
  by (simp_all add: cdTarget_def pathSplit_def pathExt_def HasSuffix_def Let_def)

text \<open>
  C6 (as amended): \<open>changeDirectory\<close> on a directory \<open>D\<close> works on \<open>cdTarget D\<close>: the
  parent of \<open>D\<close> when the last element of \<open>D\<close> has a file extension, with one trailing
  slash stripped unless that leaves nothing. When \<open>D\<close> is empty or \<open>cdTarget D\<close> is the
  session's \<open>CurrentDirectory\<close>, no shell command is sent and nothing changes.
  Otherwise \<open>cd\<close> to \<open>cdTarget D\<close> is sent once, its error is returned, and
  \<open>CurrentDirectory\<close> becomes \<open>cdTarget D\<close> exactly when the command returned no error
  and its stdout does not indicate "No such file or directory". After a call that
  returned no error and no such stdout, a second call with the same \<open>D\<close> sends nothing.
\<close>

theorem changeDirectory_cached:
  "(directory = [] \<or> CurrentDirectory s = cdTarget directory \<longrightarrow>
      changeDirectory c sh s directory = (([], None), s))
   \<and> (directory \<noteq> [] \<and> CurrentDirectory s \<noteq> cdTarget directory \<longrightarrow>
        trace (snd (changeDirectory c sh s directory))
          = trace s @ [RunEv (cdCommand (cdTarget directory)) 1000 []]
        \<and> snd (fst (changeDirectory c sh s directory))
          = snd (respond sh (trace s @ [RunEv (cdCommand (cdTarget directory)) 1000 []]))
        \<and> CurrentDirectory (snd (changeDirectory c sh s directory))
          = (if snd (respond sh (trace s @ [RunEv (cdCommand (cdTarget directory)) 1000 []])) = None
                \<and> \<not> CheckNoSuchFileOrDirectory c
                      (fst (respond sh (trace s @ [RunEv (cdCommand (cdTarget directory)) 1000 []])))
             then cdTarget directory else CurrentDirectory s))
   \<and> (snd (fst (changeDirectory c sh s directory)) = None
        \<and> \<not> CheckNoSuchFileOrDirectory c (fst (fst (changeDirectory c sh s directory))) \<longrightarrow>
        changeDirectory c sh (snd (changeDirectory c sh s directory)) directory
          = (([], None), snd (changeDirectory c sh s directory)))"
proof -
  define ev where "ev = RunEv (cdCommand (cdTarget directory)) 1000 []"
  obtain result err where r: "respond sh (trace s @ [ev]) = (result, err)"
    by (cases "respond sh (trace s @ [ev])")
  have run: "changeDirectory c sh s directory =
       (case err of
          Some e \<Rightarrow> (([], Some e), s\<lparr>trace := trace s @ [ev]\<rparr>)
        | None \<Rightarrow>
            ((result, None),
             if CheckNoSuchFileOrDirectory c result then s\<lparr>trace := trace s @ [ev]\<rparr>
             else s\<lparr>trace := trace s @ [ev], CurrentDirectory := cdTarget directory\<rparr>))"
    if "directory \<noteq> []" "CurrentDirectory s \<noteq> cdTarget directory"
    using that r unfolding ev_def by (rule changeDirectory_runs)
  have same: "changeDirectory c sh s directory = (([], None), s)"
    if "directory = [] \<or> CurrentDirectory s = cdTarget directory"
    using that by (rule changeDirectory_same)
  have first: "trace (snd (changeDirectory c sh s directory)) = trace s @ [ev]
        \<and> snd (fst (changeDirectory c sh s directory)) = snd (respond sh (trace s @ [ev]))
        \<and> CurrentDirectory (snd (changeDirectory c sh s directory))
          = (if snd (respond sh (trace s @ [ev])) = None
                \<and> \<not> CheckNoSuchFileOrDirectory c (fst (respond sh (trace s @ [ev])))
             then cdTarget directory else CurrentDirectory s)"
    if "directory \<noteq> [] \<and> CurrentDirectory s \<noteq> cdTarget directory"
    using that by (cases err) (simp_all add: run r)
  have again: "changeDirectory c sh (snd (changeDirectory c sh s directory)) directory
          = (([], None), snd (changeDirectory c sh s directory))"
    if ok: "snd (fst (changeDirectory c sh s directory)) = None
        \<and> \<not> CheckNoSuchFileOrDirectory c (fst (fst (changeDirectory c sh s directory)))"
  proof (cases "directory = [] \<or> CurrentDirectory s = cdTarget directory")
    case True
    then show ?thesis by (simp add: same)
  next
    case False
    with ok have "CurrentDirectory (snd (changeDirectory c sh s directory)) = cdTarget directory"
      by (cases err) (auto simp: run split: if_splits)
    then show ?thesis by (simp add: changeDirectory_same)
  qed
  show ?thesis
    using same first again unfolding ev_def by blast
qed

theorem changeDirectory_cached_witness:
  "''/tmp/'' \<noteq> [] \<and> CurrentDirectory fresh \<noteq> cdTarget ''/tmp/''
   \<and> cdTarget ''/tmp/'' = ''/tmp'' \<and> cdTarget ''/opt/app/conf.json'' = ''/opt/app''
   \<and> cdTarget ''/'' = ''/''
   \<and> trace (snd (changeDirectory plain obliging fresh ''/tmp/'')) = [RunEv ''cd /tmp'' 1000 []]
   \<and> CurrentDirectory (snd (changeDirectory plain obliging fresh ''/tmp/'')) = ''/tmp''
   \<and> changeDirectory plain obliging (snd (changeDirectory plain obliging fresh ''/tmp/'')) ''/tmp/''
        = (([], None), snd (changeDirectory plain obliging fresh ''/tmp/''))"
proof -
  have h: "''/tmp/'' \<noteq> [] \<and> CurrentDirectory fresh \<noteq> cdTarget ''/tmp/''"
    by (simp add: cdTarget_examples fresh_def)
  have r: "respond obliging (trace fresh @ [RunEv (cdCommand (cdTarget ''/tmp/'')) 1000 []]) = ([], None)"
    by (simp add: obliging_def)
  have n: "\<not> CheckNoSuchFileOrDirectory plain []"
    by (simp add: plain_def)
  from changeDirectory_cached [of "''/tmp/''" fresh plain obliging] h
  have "trace (snd (changeDirectory plain obliging fresh ''/tmp/''))
          = trace fresh @ [RunEv (cdCommand (cdTarget ''/tmp/'')) 1000 []]
        \<and> snd (fst (changeDirectory plain obliging fresh ''/tmp/'')) = None
        \<and> CurrentDirectory (snd (changeDirectory plain obliging fresh ''/tmp/'')) = cdTarget ''/tmp/''"
    by (simp add: r n)
  moreover have "\<not> CheckNoSuchFileOrDirectory plain
      (fst (fst (changeDirectory plain obliging fresh ''/tmp/'')))"
    using h changeDirectory_runs [OF _ _ r, of plain] by (simp add: n)
  ultimately show ?thesis
    using h changeDirectory_cached [of "''/tmp/''" fresh plain obliging]
    by (simp add: cdTarget_examples cdCommand_def fresh_def)
qed

text \<open>C6 as stated fails for a directory that does not exist: the first \<open>cd\<close> reports
  "No such file or directory", the directory is not cached, and the second \<open>cd\<close> of the
  same directory is sent to the shell again.\<close>

theorem changeDirectory_missing_counterexample:
  "trace (snd (changeDirectory plain missing
       (snd (changeDirectory plain missing fresh ''/nope'')) ''/nope''))
     = [RunEv ''cd /nope'' 1000 [], RunEv ''cd /nope'' 1000 []]"
proof -
  have c: "CheckNoSuchFileOrDirectory plain ''cd: /nope: No such file or directory''"
    by (simp add: plain_def)
  have 1: "changeDirectory plain missing fresh ''/nope''
      = ((''cd: /nope: No such file or directory'', None), fresh\<lparr>trace := [RunEv ''cd /nope'' 1000 []]\<rparr>)"
    using c
    by (simp add: changeDirectory_unfold cdTarget_examples cdCommand_def rumCommandTemplate_def
        SessionRun_def missing_def fresh_def Let_def)
  show ?thesis
    using c
    by (simp add: 1 changeDirectory_unfold cdTarget_examples cdCommand_def rumCommandTemplate_def
        SessionRun_def missing_def fresh_def Let_def)
qed

subsection \<open>Reconnection\<close>

lemma reexport_fold:
  assumes "distinct (map fst env)" and "fst ` set (EnvVariables s) \<inter> fst ` set env = {}"
  shows "trace (foldl (\<lambda>s (k, v). snd (setEnvVariable c sh ctx s k v)) s env)
           = trace s @ reexports c ctx env
         \<and> CurrentDirectory (foldl (\<lambda>s (k, v). snd (setEnvVariable c sh ctx s k v)) s env)
           = CurrentDirectory s"
  using assms
proof (induction env arbitrary: s)
  case Nil
  then show ?case by (simp add: reexports_def)
next
  case (Cons kv env)
  obtain k v where kv: "kv = (k, v)" by (cases kv)
  let ?s = "snd (setEnvVariable c sh ctx s k v)"
  from Cons.prems kv have "k \<notin> fst ` set (EnvVariables s)" by auto
  then have "map_of (EnvVariables s) k = None"
    by (simp add: map_of_eq_None_iff)
  then have ne: "map_of (EnvVariables s) k \<noteq> Some (Expand c ctx v)" by simp
  have s1: "?s = s\<lparr>EnvVariables := AList.update k (Expand c ctx v) (EnvVariables s),
          trace := trace s @ [RunEv (exportCommand k (Expand c ctx v)) 1000 []]\<rparr>"
    by (simp add: setEnvVariable_export [OF ne])
  have d: "distinct (map fst env)" using Cons.prems by simp
  have "fst ` set (EnvVariables ?s) = insert k (fst ` set (EnvVariables s))"
    by (simp add: s1 dom_update)
  with Cons.prems kv have i: "fst ` set (EnvVariables ?s) \<inter> fst ` set env = {}"
    by auto
  from Cons.IH [OF d i] show ?case
    by (simp add: kv s1 reexports_def)
qed


lemma cdTarget_Nil [simp]: "cdTarget [] = []"
  by (simp add: cdTarget_def pathSplit_def pathExt_def)

lemma changeDirectory_from_reset:
  "CurrentDirectory s = [] \<Longrightarrow>
     trace (snd (changeDirectory c sh s directory)) = trace s @ recd directory"
proof (cases "cdTarget directory = []")
  case True
  assume "CurrentDirectory s = []"
  with True show ?thesis by (simp add: changeDirectory_same recd_def)
next
  case False
  assume cur: "CurrentDirectory s = []"
  from False have ne: "directory \<noteq> []" by auto
  obtain result err where
    r: "respond sh (trace s @ [RunEv (cdCommand (cdTarget directory)) 1000 []]) = (result, err)"
    by (cases "respond sh (trace s @ [RunEv (cdCommand (cdTarget directory)) 1000 []])")
  from False cur have "CurrentDirectory s \<noteq> cdTarget directory" by simp
  from changeDirectory_runs [OF ne this r] False show ?thesis
    by (cases err) (simp_all add: recd_def)
qed

lemma run_ok:
  "respond sh (trace s @ [RunEv command t ts]) = (out, None) \<Longrightarrow>
     run c sh ctx s command t ts = ((out, None), s\<lparr>trace := trace s @ [RunEv command t ts]\<rparr>)"
  by (simp add: run_def SessionRun_def Let_def)

lemma run_other_error:
  "respond sh (trace s @ [RunEv command t ts]) = (out, Some e) \<Longrightarrow> e \<noteq> ErrTerminated \<Longrightarrow>
     run c sh ctx s command t ts = ((out, Some e), s\<lparr>trace := trace s @ [RunEv command t ts]\<rparr>)"
  by (simp add: run_def SessionRun_def Let_def)

lemma run_reconnect_failed:
  "respond sh (trace s @ [RunEv command t ts]) = (out, Some ErrTerminated) \<Longrightarrow>
   reconnected sh (trace s @ [RunEv command t ts, ReconnectEv]) = Some e2 \<Longrightarrow>
     run c sh ctx s command t ts
       = (([], Some e2), s\<lparr>trace := trace s @ [RunEv command t ts, ReconnectEv]\<rparr>)"
  by (simp add: run_def SessionRun_def SessionReconnect_def Let_def)

lemma run_reconnected:
  assumes r: "respond sh (trace s @ [RunEv command t ts]) = (out, Some ErrTerminated)"
    and rc: "reconnected sh (trace s @ [RunEv command t ts, ReconnectEv]) = None"
    and d: "distinct (map fst (EnvVariables s))"
  shows "trace (snd (run c sh ctx s command t ts))
           = trace s @ [RunEv command t ts, ReconnectEv] @ reexports c ctx (EnvVariables s)
             @ recd (CurrentDirectory s) @ [RunEv command t ts]
         \<and> fst (run c sh ctx s command t ts) = respond sh (trace (snd (run c sh ctx s command t ts)))"
proof -
  define s3 where "s3 = s\<lparr>trace := trace s @ [RunEv command t ts, ReconnectEv],
                         EnvVariables := [], CurrentDirectory := []\<rparr>"
  define s4 where "s4 = foldl (\<lambda>s (k, v). snd (setEnvVariable c sh ctx s k v)) s3 (EnvVariables s)"
  define s5 where "s5 = snd (changeDirectory c sh s4 (CurrentDirectory s))"
  have run: "run c sh ctx s command t ts = SessionRun sh s5 command t ts"
    using r rc
    by (simp add: run_def SessionRun_def SessionReconnect_def Let_def s3_def s4_def s5_def
        split: prod.splits)
  have "fst ` set (EnvVariables s3) \<inter> fst ` set (EnvVariables s) = {}"
    by (simp add: s3_def)
  from reexport_fold [OF d this, of c sh ctx]
  have t4: "trace s4 = trace s3 @ reexports c ctx (EnvVariables s)"
    and c4: "CurrentDirectory s4 = []"
    by (simp_all add: s4_def s3_def)
  have t5: "trace s5 = trace s4 @ recd (CurrentDirectory s)"
    unfolding s5_def using c4 by (rule changeDirectory_from_reset)
  show ?thesis
    by (simp add: run SessionRun_def Let_def t5 t4 s3_def)
qed


text \<open>
  C2 (as amended): \<open>run\<close> sends the command once. If that returns no error, or an error
  other than the distinguished Terminated, the stdout and the error are returned as they
  are and nothing else is sent. If it returns Terminated, the session is reconnected; if
  the reconnection fails its error is returned with an empty stdout and nothing else is
  sent; otherwise (the keys of \<open>EnvVariables\<close> being distinct, as in a Go map) the shell
  receives, after the reconnection, one export for every variable that was in
  \<open>EnvVariables\<close>, then what \<open>changeDirectory\<close> sends for the previous
  \<open>CurrentDirectory\<close>, then the command once more, whose result is the result of \<open>run\<close>.
\<close>

theorem run_reconnects_once:
  assumes "respond sh (trace s @ [RunEv command t ts]) = (out, err)"
  shows "(err = None \<longrightarrow>
            run c sh ctx s command t ts
              = ((out, None), s\<lparr>trace := trace s @ [RunEv command t ts]\<rparr>))
       \<and> (\<forall>e. err = Some e \<and> e \<noteq> ErrTerminated \<longrightarrow>
            run c sh ctx s command t ts
              = ((out, Some e), s\<lparr>trace := trace s @ [RunEv command t ts]\<rparr>))
       \<and> (\<forall>e2. err = Some ErrTerminated
              \<and> reconnected sh (trace s @ [RunEv command t ts, ReconnectEv]) = Some e2 \<longrightarrow>
            run c sh ctx s command t ts
              = (([], Some e2), s\<lparr>trace := trace s @ [RunEv command t ts, ReconnectEv]\<rparr>))
       \<and> (err = Some ErrTerminated
            \<and> reconnected sh (trace s @ [RunEv command t ts, ReconnectEv]) = None
            \<and> distinct (map fst (EnvVariables s)) \<longrightarrow>
            trace (snd (run c sh ctx s command t ts))
              = trace s @ [RunEv command t ts, ReconnectEv] @ reexports c ctx (EnvVariables s)
                @ recd (CurrentDirectory s) @ [RunEv command t ts]
            \<and> fst (run c sh ctx s command t ts)
              = respond sh (trace (snd (run c sh ctx s command t ts))))"
  using assms run_ok [of sh s command t ts out c ctx]
    run_other_error [of sh s command t ts out _ c ctx]
    run_reconnect_failed [of sh s command t ts out _ c ctx]
    run_reconnected [of sh s command t ts out c ctx]
  by blast

theorem run_reconnects_once_witness:
  "respond dropping (trace settled @ [RunEv ''ls'' 0 []]) = ([], Some ErrTerminated)
   \<and> reconnected dropping (trace settled @ [RunEv ''ls'' 0 [], ReconnectEv]) = None
   \<and> distinct (map fst (EnvVariables settled))
   \<and> trace (snd (run plain dropping Map.empty settled ''ls'' 0 []))
       = [RunEv ''ls'' 0 [], ReconnectEv, RunEv ''export A=1'' 1000 [],
          RunEv (''export B='' @ quote @ ''x y'' @ quote) 1000 [], RunEv ''cd /tmp'' 1000 [],
          RunEv ''ls'' 0 []]
   \<and> fst (run plain dropping Map.empty settled ''ls'' 0 []) = (''ok'', None)"
proof -
  have r: "respond dropping (trace settled @ [RunEv ''ls'' 0 []]) = ([], Some ErrTerminated)"
    by (simp add: dropping_def settled_def fresh_def)
  have rc: "reconnected dropping (trace settled @ [RunEv ''ls'' 0 [], ReconnectEv]) = None"
    by (simp add: dropping_def)
  have d: "distinct (map fst (EnvVariables settled))"
    by (simp add: settled_def)
  have e: "reexports plain Map.empty (EnvVariables settled)
      = [RunEv ''export A=1'' 1000 [], RunEv (''export B='' @ quote @ ''x y'' @ quote) 1000 []]"
    by (simp add: reexports_def settled_def exportCommand_def plain_def TrimSpace_def dropRunes.simps spaceRunes_def)
  have cd: "recd (CurrentDirectory settled) = [RunEv ''cd /tmp'' 1000 []]"
    by (simp add: recd_def settled_def cdTarget_def pathSplit_def pathExt_def HasSuffix_def
        cdCommand_def)
  have ts: "trace settled = []"
    by (simp add: settled_def fresh_def)
  from run_reconnects_once [OF r, of plain Map.empty] rc d
  have both: "trace (snd (run plain dropping Map.empty settled ''ls'' 0 []))
          = trace settled @ [RunEv ''ls'' 0 [], ReconnectEv]
            @ reexports plain Map.empty (EnvVariables settled)
            @ recd (CurrentDirectory settled) @ [RunEv ''ls'' 0 []]
        \<and> fst (run plain dropping Map.empty settled ''ls'' 0 [])
          = respond dropping (trace (snd (run plain dropping Map.empty settled ''ls'' 0 [])))"
    by blast
  then have tr: "trace (snd (run plain dropping Map.empty settled ''ls'' 0 []))
       = [RunEv ''ls'' 0 [], ReconnectEv, RunEv ''export A=1'' 1000 [],
          RunEv (''export B='' @ quote @ ''x y'' @ quote) 1000 [], RunEv ''cd /tmp'' 1000 [],
          RunEv ''ls'' 0 []]"
    unfolding e cd ts by simp
  from both have "fst (run plain dropping Map.empty settled ''ls'' 0 []) = (''ok'', None)"
    unfolding tr by (simp add: dropping_def)
  with tr r rc d show ?thesis by blast
qed

text \<open>C2 as stated fails when the reconnection fails: the command is sent once, the
  variables are not exported again and the command is not retried.\<close>

theorem run_reconnect_failed_counterexample:
  "respond unreachable (trace settled @ [RunEv ''ls'' 0 []]) = ([], Some ErrTerminated)
   \<and> EnvVariables settled = [(''A'', ''1''), (''B'', ''x y'')]
   \<and> CurrentDirectory settled = ''/tmp''
   \<and> fst (run plain unreachable Map.empty settled ''ls'' 0 [])
       = ([], Some (Errorf ''connection refused''))
   \<and> trace (snd (run plain unreachable Map.empty settled ''ls'' 0 []))
       = [RunEv ''ls'' 0 [], ReconnectEv]"
  by (simp add: run_def SessionRun_def SessionReconnect_def unreachable_def settled_def fresh_def
      Let_def)

subsection \<open>The output of a command sequence\<close>

lemma executeCommandBody_unfold:
  "executeCommandBody exec c sh ctx s extractCommand response request =
     (let ctx = ctx(''os.user'' \<mapsto> Username s);
          securedCommand = Expand c ctx (Command extractCommand);
          options = ReqOptions request;
          terminators = getTerminators options (ShellPrompt sh (trace s)) extractCommand;
          isSuperUserCmd = (Contains securedCommand ''sudo '' \<or> SuperUser request)
      in
      if When extractCommand \<noteq> []
         \<and> \<not> fst (Evaluate c ctx (buildExecutionState response ctx) (When extractCommand))
      then
        (let err = snd (Evaluate c ctx (buildExecutionState response ctx) (When extractCommand))
         in Some (err, ctx, s, Add response (NewCommandLog securedCommand [] err), request))
      else
        (let securedCommand =
               (if When extractCommand = [] \<and> Contains securedCommand ''$''
                then ExpandAsText c (buildExecutionState response ctx) securedCommand
                else securedCommand);
             terminators = (if isSuperUserCmd \<and> \<not> SuperUSerAuth s
                            then terminators @ [''Password''] else terminators);
             securedCommand = (if isSuperUserCmd then commandAsSuperUser s securedCommand
                               else securedCommand)
         in
         case SecretsExpand c securedCommand (Secrets request) of
           Inl e \<Rightarrow> Some (Some e, ctx, s, response, request)
         | Inr insecureCommand \<Rightarrow>
             runAndComplete exec c sh ctx s extractCommand options terminators
               (if SecretReveal c then insecureCommand else securedCommand) insecureCommand
               (if TimeoutMs extractCommand > 0 then TimeoutMs extractCommand
                else OptTimeoutMs options)
               isSuperUserCmd response request))"
proof -
  have sep: "\<And>r. (if length (Output r) > 0 \<and> \<not> HasSuffix (Output r) newline
                 then r\<lparr>Output := Output r @ newline\<rparr> else r)
             = r\<lparr>Output := separated (Output r)\<rparr>"
    by (simp add: separated_def)
  show ?thesis
    unfolding executeCommandBody_def runAndComplete_def completeCommand_def sep Let_def ..
qed

lemma HasSuffix_snoc [simp]: "HasSuffix (xs @ [x]) [x]"
  by (simp add: HasSuffix_def)

lemma separated_idem [simp]: "separated (separated out) = separated out"
  by (simp add: separated_def)

lemma completeCommand_output:
  assumes "completeCommand c sh ctx s extractCommand options terminators securedCommand out err
             isSuperUserCmd response request = Some (None, ctx', s', r', request')"
  shows "\<exists>log. Cmd r' = Cmd response @ [log] \<and> Stdout log = out
           \<and> Output r' = Output response @ out"
  using assms
  by (auto simp: completeCommand_def Let_def Add_def NewCommandLog_def
      split: if_splits prod.splits option.splits)

lemma authSuperUserIfNeeded_output:
  assumes "authSuperUserIfNeeded exec c out ctx s extractCommand response request
             = Some (None, ctx', s', r', request')"
    and "\<And>ctx s x r request ctx' s' r' request'.
           exec ctx s x r request = Some (None, ctx', s', r', request') \<Longrightarrow> When x = [] \<Longrightarrow>
           executes r r'"
  shows "r' = response \<or> executes response r'"
  using assms
  by (auto simp: authSuperUserIfNeeded_def NewExtractCommand_def Let_def split: if_splits)


lemma executes_after_auth:
  assumes "r3 = r1 \<or> executes r1 r3"
    and "Cmd r1 = Cmd r" and "Output r1 = separated (Output r)"
    and "Cmd r' = Cmd r3 @ [log]" and "Stdout log = out" and "Output r' = Output r3 @ out"
  shows "executes r r'"
  using assms(1)
proof
  assume "r3 = r1"
  with assms show ?thesis
    by (auto simp: executes_def intro!: exI [of _ "[log]"])
next
  assume "executes r1 r3"
  then obtain entries where e: "entries \<noteq> []" "Cmd r3 = Cmd r1 @ entries"
      "Output r3 = separated (Output r1) @ concat (map Stdout entries)"
    by (auto simp: executes_def)
  with assms show ?thesis
    by (auto simp: executes_def intro!: exI [of _ "entries @ [log]"])
qed

lemma runAndComplete_output:
  assumes res: "runAndComplete exec c sh ctx s x options terminators securedCommand
                  insecureCommand timeoutMs super response request
                  = Some (None, ctx', s', r', request')"
    and IH: "\<And>ctx s x r request ctx' s' r' request'.
           exec ctx s x r request = Some (None, ctx', s', r', request') \<Longrightarrow> When x = [] \<Longrightarrow>
           executes r r'"
  shows "executes response r'"
proof -
  define r1 where "r1 = response\<lparr>Output := separated (Output response)\<rparr>"
  obtain out1 err1 s1 where
    run1: "run c sh ctx s insecureCommand timeoutMs terminators = ((out1, err1), s1)"
    by (metis prod.exhaust)
  define retry where "retry = (AutoSudo request \<and> \<not> IsPermitted c out1 \<and> Username s1 \<noteq> ''root''
                   \<and> \<not> HasPrefix securedCommand ''sudo'')"
  obtain out err s2 where
    second: "(if retry
              then retryWithSudo c sh ctx s1 insecureCommand (OptTimeoutMs options) terminators
              else ((out1, err1), s1)) = ((out, err), s2)"
    by (metis prod.exhaust)
  define super' where "super' = (super \<or> retry)"
  define a where "a = (if super' then authSuperUserIfNeeded exec c out ctx s2 x r1 request
                       else Some (None, ctx, s2, r1, request))"
  have "runAndComplete exec c sh ctx s x options terminators securedCommand
                  insecureCommand timeoutMs super response request
      = (case a of
          None \<Rightarrow> None
        | Some (Some e, ctx, s, response, request) \<Rightarrow> Some (Some e, ctx, s, response, request)
        | Some (None, ctx, s, response, request) \<Rightarrow>
            completeCommand c sh ctx s x options terminators securedCommand
              out err super' response request)"
    unfolding runAndComplete_def Let_def run1 prod.case retry_def [symmetric] second
      super'_def [symmetric] r1_def [symmetric] a_def [symmetric] ..
  with res obtain ctx3 s3 r3 request3 where
    a: "a = Some (None, ctx3, s3, r3, request3)"
    and fin: "completeCommand c sh ctx3 s3 x options terminators securedCommand out err super'
                 r3 request3 = Some (None, ctx', s', r', request')"
    by (auto split: option.splits)
  have auth: "r3 = r1 \<or> executes r1 r3"
  proof (cases super')
    case True
    with a have "authSuperUserIfNeeded exec c out ctx s2 x r1 request
                   = Some (None, ctx3, s3, r3, request3)"
      by (simp add: a_def)
    then show ?thesis using IH by (rule authSuperUserIfNeeded_output)
  next
    case False
    with a show ?thesis by (simp add: a_def)
  qed
  from completeCommand_output [OF fin] obtain log where
    "Cmd r' = Cmd r3 @ [log]" "Stdout log = out" "Output r' = Output r3 @ out"
    by blast
  with auth show ?thesis
    by (intro executes_after_auth [where ?r1.0 = r1]) (simp_all add: r1_def)
qed

lemma executeCommandBody_output:
  assumes res: "executeCommandBody exec c sh ctx s x response request
                  = Some (None, ctx', s', r', request')"
    and IH: "\<And>ctx s x r request ctx' s' r' request'.
           exec ctx s x r request = Some (None, ctx', s', r', request') \<Longrightarrow> When x = [] \<Longrightarrow>
           executes r r'"
  shows "if suppressed c ctx s x response then skips response r' else executes response r'"
proof -
  define ctx1 where "ctx1 = ctx(''os.user'' \<mapsto> Username s)"
  have sup: "suppressed c ctx s x response
      = (When x \<noteq> [] \<and> \<not> fst (Evaluate c ctx1 (buildExecutionState response ctx1) (When x)))"
    by (simp add: suppressed_def Let_def ctx1_def)
  show ?thesis
  proof (cases "suppressed c ctx s x response")
    case True
    with res have "r' = Add response (NewCommandLog (Expand c ctx1 (Command x)) []
        (snd (Evaluate c ctx1 (buildExecutionState response ctx1) (When x))))"
      unfolding sup by (auto simp: executeCommandBody_unfold Let_def ctx1_def)
    then have "skips response r'"
      by (simp add: skips_def Add_def NewCommandLog_def)
    with True show ?thesis by simp
  next
    case False
    with res obtain options terminators securedCommand insecureCommand timeoutMs super
      where "runAndComplete exec c sh ctx1 s x options terminators securedCommand
                  insecureCommand timeoutMs super response request
                  = Some (None, ctx', s', r', request')"
      unfolding sup executeCommandBody_unfold Let_def ctx1_def [symmetric]
      by (auto split: sum.splits)
    then have "executes response r'"
      using IH by (rule runAndComplete_output)
    with False show ?thesis by simp
  qed
qed

lemma executeCommand_output:
  "executeCommand fuel c sh ctx s x response request = Some (None, ctx', s', r', request') \<Longrightarrow>
     (if suppressed c ctx s x response then skips response r' else executes response r')"
proof (induction fuel arbitrary: ctx s x response request ctx' s' r' request')
  case 0
  then show ?case by simp
next
  case (Suc fuel)
  from Suc.prems have
    "executeCommandBody (executeCommand fuel c sh) c sh ctx s x response request
       = Some (None, ctx', s', r', request')"
    by simp
  then show ?case
  proof (rule executeCommandBody_output)
    fix ctx s x r request ctx' s' r' request'
    assume "executeCommand fuel c sh ctx s x r request = Some (None, ctx', s', r', request')"
      and "When x = []"
    with Suc.IH [of ctx s x r request ctx' s' r' request'] show "executes r r'"
      by (simp add: suppressed_def)
  qed
qed

lemma runExtractCommand_output:
  assumes "runExtractCommand fuel c sh ctx s x response request
             = Some (None, ctx', s', r', request')"
  shows "if executed c ctx s x response then executes response r' else skips response r'"
proof -
  define command where "command = Expand c ctx (Command x)"
  have ex: "executed c ctx s x response
      = (\<not> bareCd command \<and> \<not> bareExport command \<and> \<not> suppressed c ctx s x response)"
    by (simp add: executed_def Let_def command_def)
  consider (cd) "bareCd command"
    | (export) "\<not> bareCd command" "bareExport command"
    | (other) "\<not> bareCd command" "\<not> bareExport command"
    by blast
  then show ?thesis
  proof cases
    case cd
    with assms have "\<exists>out err. r' = Add response (NewCommandLog command out err)"
      unfolding runExtractCommand_def Let_def command_def [symmetric] bareCd_def
      by (auto split: prod.splits)
    then have "skips response r'"
      by (auto simp: skips_def Add_def NewCommandLog_def)
    with cd show ?thesis by (simp add: ex)
  next
    case export
    with assms have "\<exists>err. r' = Add response (NewCommandLog command [] err)"
      unfolding runExtractCommand_def Let_def command_def [symmetric] bareCd_def bareExport_def
      by (auto split: prod.splits)
    then have "skips response r'"
      by (auto simp: skips_def Add_def NewCommandLog_def)
    with export show ?thesis by (simp add: ex)
  next
    case other
    define s0 where "s0 = (if Contains command ''rm '' \<and> Contains command (CurrentDirectory s)
                           then s\<lparr>CurrentDirectory := []\<rparr> else s)"
    define s1 where "s1 = (if HasPrefix command ''cd '' then s0\<lparr>CurrentDirectory := []\<rparr> else s0)"
    define s2 where "s2 = (if HasPrefix command ''export '' then s1\<lparr>EnvVariables := []\<rparr> else s1)"
    have u: "Username s2 = Username s"
      by (simp add: s2_def s1_def s0_def)
    from other have "runExtractCommand fuel c sh ctx s x response request
        = executeCommand fuel c sh ctx s2 x response request"
      unfolding runExtractCommand_def Let_def command_def [symmetric] s0_def [symmetric]
        s1_def [symmetric] s2_def [symmetric] bareCd_def bareExport_def
      by auto
    with assms have
      "executeCommand fuel c sh ctx s2 x response request = Some (None, ctx', s', r', request')"
      by simp
    from executeCommand_output [OF this]
    have "if suppressed c ctx s x response then skips response r' else executes response r'"
      by (simp add: suppressed_def u)
    with other show ?thesis by (simp add: ex)
  qed
qed

lemma runExtractCommandsLoop_output:
  "runExtractCommandsLoop fuel c sh ctx s r request commands = Some (Inr r', ctx', s', request') \<Longrightarrow>
   length (contributions fuel c sh ctx s r request commands) = length commands
   \<and> Cmd r' = Cmd r @ concat (map snd (contributions fuel c sh ctx s r request commands))
   \<and> Output r' = outputOfSteps (Output r) (contributions fuel c sh ctx s r request commands)
   \<and> list_all (\<lambda>(sent, entries). entries \<noteq> [] \<and> (sent \<or> length entries = 1))
       (contributions fuel c sh ctx s r request commands)"
proof (induction commands arbitrary: ctx s r request)
  case Nil
  then show ?case by simp
next
  case (Cons x commands)
  from Cons.prems(1) obtain ctx1 s1 r1 request1 where
    step: "runExtractCommand fuel c sh ctx s x r request = Some (None, ctx1, s1, r1, request1)"
    and rest: "runExtractCommandsLoop fuel c sh ctx1 s1 r1 request1 commands
                 = Some (Inr r', ctx', s', request')"
    by (auto split: option.splits prod.splits)
  define steps where "steps = contributions fuel c sh ctx1 s1 r1 request1 commands"
  define entries where "entries = drop (length (Cmd r)) (Cmd r1)"
  have unfold: "contributions fuel c sh ctx s r request (x # commands)
      = (executed c ctx s x r, entries) # steps"
    by (simp add: step steps_def entries_def)
  from runExtractCommand_output [OF step]
  have one: "Cmd r1 = Cmd r @ entries \<and> entries \<noteq> []
      \<and> (if executed c ctx s x r
          then Output r1 = separated (Output r) @ concat (map Stdout entries)
          else Output r1 = Output r \<and> length entries = 1)"
    by (auto simp: executes_def skips_def entries_def split: if_splits)
  from Cons.IH [OF rest] have more: "length steps = length commands"
    "Cmd r' = Cmd r1 @ concat (map snd steps)"
    "Output r' = outputOfSteps (Output r1) steps"
    "list_all (\<lambda>(sent, entries). entries \<noteq> [] \<and> (sent \<or> length entries = 1)) steps"
    by (simp_all add: steps_def)
  from one more show ?case
    unfolding unfold by (auto split: if_splits)
qed

lemma plain_simps [simp]:
  "Expand plain ctx t = t" "ExpandAsText plain st t = t"
  "SecretsExpand plain t secrets = Inr t" "SecretReveal plain = False"
  "EscapedContains plain = Contains" "ExtractRules plain rules d lines = (None, d)"
  by (simp_all add: plain_def)

lemma plainCommand_simps [simp]:
  "Command (plainCommand t) = t" "When (plainCommand t) = []" "TimeoutMs (plainCommand t) = 0"
  "Terminators (plainCommand t) = []" "Errors (plainCommand t) = []"
  "Success (plainCommand t) = []" "Extract (plainCommand t) = []"
  by (simp_all add: plainCommand_def NewExtractCommand_def)

lemma noRequest_simps [simp]:
  "ReqOptions noRequest = noOptions" "Secrets noRequest = []" "SuperUser noRequest = False"
  "AutoSudo noRequest = False" "CheckError noRequest = False"
  "OptTimeoutMs noOptions = 0" "OptTerminators noOptions = []"
  "Env noOptions = []" "SystemPaths noOptions = []" "Directory noOptions = []"
  by (simp_all add: noRequest_def noOptions_def)

lemma executeCommand_plain:
  assumes "\<not> Contains t ''sudo ''" and "\<not> Contains t ''$''"
    and "ShellPrompt sh (trace s) = ''$ ''"
    and "respond sh (trace s @ [RunEv t 0 [''$ '', ''# '']]) = (out, None)"
    and "ReqOptions request = noOptions" and "Secrets request = []" and "\<not> SuperUser request"
    and "\<not> AutoSudo request" and "\<not> CheckError request"
  shows "executeCommand (Suc fuel) plain sh ctx s (plainCommand t) response request =
           Some (None, ctx(''os.user'' \<mapsto> Username s),
                 s\<lparr>trace := trace s @ [RunEv t 0 [''$ '', ''# '']]\<rparr>,
                 response\<lparr>Output := separated (Output response) @ out,
                          Cmd := Cmd response @ [NewCommandLog t out None]\<rparr>, request)"
proof -
  have g: "getTerminators noOptions ''$ '' (plainCommand t) = [''$ '', ''# '']"
    by (simp add: getTerminators_def Let_def)
  have r: "run plain sh (ctx(''os.user'' \<mapsto> Username s)) s t 0 [''$ '', ''# '']
             = ((out, None), s\<lparr>trace := trace s @ [RunEv t 0 [''$ '', ''# '']]\<rparr>)"
    using assms(4) by (rule run_ok)
  show ?thesis
    using assms(1,2,5-9)
    by (simp add: executeCommandBody_unfold runAndComplete_def completeCommand_def Let_def
        assms(3) g r validateStdout_def Add_def NewCommandLog_def)
qed


lemma runExtractCommand_plain:
  assumes "\<not> HasPrefix t ''cd ''" and "\<not> HasPrefix t ''export ''" and "\<not> Contains t ''rm ''"
  shows "runExtractCommand fuel plain sh ctx s (plainCommand t) response request
           = executeCommand fuel plain sh ctx s (plainCommand t) response request"
  using assms by (simp add: runExtractCommand_def Let_def)

lemma twoCommands_run:
  "runExtractCommands (Suc 0) plain echoing Map.empty (Inr fresh) twoCommands =
     Some (Inr \<lparr>Session = ''127.0.0.1:22'',
                Cmd = [\<lparr>Stdin = ''true'', Stdout = [], Error = None\<rparr>,
                       \<lparr>Stdin = ''echo hi'', Stdout = ''hi'', Error = None\<rparr>],
                Output = ''hi'', Data = []\<rparr>,
           [''os.user'' \<mapsto> ''dev''],
           Some (fresh\<lparr>trace := [RunEv ''true'' 0 [''$ '', ''# ''], RunEv ''echo hi'' 0 [''$ '', ''# '']]\<rparr>),
           twoCommands)"
  "contributions (Suc 0) plain echoing Map.empty fresh (NewRunResponse (ID fresh)) twoCommands
       (Commands twoCommands)
     = [(True, [\<lparr>Stdin = ''true'', Stdout = [], Error = None\<rparr>]),
        (True, [\<lparr>Stdin = ''echo hi'', Stdout = ''hi'', Error = None\<rparr>])]"
proof -
  have opts: "applyCommandOptions plain echoing Map.empty noOptions fresh = (None, fresh)"
    by (simp add: applyCommandOptions_def)
  have req: "ReqOptions twoCommands = noOptions" "Secrets twoCommands = []"
    "\<not> SuperUser twoCommands" "\<not> AutoSudo twoCommands" "\<not> CheckError twoCommands"
    "Commands twoCommands = [plainCommand ''true'', plainCommand ''echo hi'']"
    by (simp_all add: twoCommands_def)
  define s1 where "s1 = fresh\<lparr>trace := trace fresh @ [RunEv ''true'' 0 [''$ '', ''# '']]\<rparr>"
  define s2 where "s2 = s1\<lparr>trace := trace s1 @ [RunEv ''echo hi'' 0 [''$ '', ''# '']]\<rparr>"
  define r0 where "r0 = NewRunResponse (ID fresh)"
  define r1 where "r1 = r0\<lparr>Output := separated (Output r0) @ [],
                          Cmd := Cmd r0 @ [NewCommandLog ''true'' [] None]\<rparr>"
  define r2 where "r2 = r1\<lparr>Output := separated (Output r1) @ ''hi'',
                          Cmd := Cmd r1 @ [NewCommandLog ''echo hi'' ''hi'' None]\<rparr>"
  define ctx1 :: ctx where "ctx1 = [''os.user'' \<mapsto> Username fresh]"
  define ctx2 :: ctx where "ctx2 = ctx1(''os.user'' \<mapsto> Username s1)"
  have "executeCommand (Suc 0) plain echoing Map.empty fresh (plainCommand ''true'') r0 twoCommands
      = Some (None, ctx1, s1, r1, twoCommands)"
    unfolding s1_def r1_def ctx1_def
    by (rule executeCommand_plain) (simp_all add: req echoing_def scripted_def)
  then have 1: "runExtractCommand (Suc 0) plain echoing Map.empty fresh (plainCommand ''true'') r0
      twoCommands = Some (None, ctx1, s1, r1, twoCommands)"
    by (simp add: runExtractCommand_plain)
  have "executeCommand (Suc 0) plain echoing ctx1 s1 (plainCommand ''echo hi'') r1 twoCommands
      = Some (None, ctx2, s2, r2, twoCommands)"
    unfolding s2_def r2_def ctx2_def
    by (rule executeCommand_plain) (simp_all add: req echoing_def scripted_def s1_def)
  then have 2: "runExtractCommand (Suc 0) plain echoing ctx1 s1 (plainCommand ''echo hi'') r1
      twoCommands = Some (None, ctx2, s2, r2, twoCommands)"
    by (simp add: runExtractCommand_plain)
  have "runExtractCommands (Suc 0) plain echoing Map.empty (Inr fresh) twoCommands
      = Some (Inr r2, ctx2, Some s2, twoCommands)"
    by (simp add: runExtractCommands_def req opts r0_def [symmetric] 1 2)
  then show "runExtractCommands (Suc 0) plain echoing Map.empty (Inr fresh) twoCommands =
     Some (Inr \<lparr>Session = ''127.0.0.1:22'',
                Cmd = [\<lparr>Stdin = ''true'', Stdout = [], Error = None\<rparr>,
                       \<lparr>Stdin = ''echo hi'', Stdout = ''hi'', Error = None\<rparr>],
                Output = ''hi'', Data = []\<rparr>,
           [''os.user'' \<mapsto> ''dev''],
           Some (fresh\<lparr>trace := [RunEv ''true'' 0 [''$ '', ''# ''], RunEv ''echo hi'' 0 [''$ '', ''# '']]\<rparr>),
           twoCommands)"
    by (simp add: r2_def r1_def r0_def s2_def s1_def ctx2_def ctx1_def NewRunResponse_def
        NewCommandLog_def separated_def fresh_def)
  have sent: "executed plain ctx s (plainCommand ''true'') r"
    "executed plain ctx s (plainCommand ''echo hi'') r" for ctx s r
    by (simp_all add: executed_def Let_def bareCd_def bareExport_def suppressed_def)
  have "contributions (Suc 0) plain echoing Map.empty fresh r0 twoCommands
      [plainCommand ''true'', plainCommand ''echo hi'']
    = [(True, drop (length (Cmd r0)) (Cmd r1)), (True, drop (length (Cmd r1)) (Cmd r2))]"
    by (simp add: 1 2 sent del: executeCommand.simps)
  then show "contributions (Suc 0) plain echoing Map.empty fresh (NewRunResponse (ID fresh))
       twoCommands (Commands twoCommands)
     = [(True, [\<lparr>Stdin = ''true'', Stdout = [], Error = None\<rparr>]),
        (True, [\<lparr>Stdin = ''echo hi'', Stdout = ''hi'', Error = None\<rparr>])]"
    by (simp add: req r2_def r1_def r0_def NewRunResponse_def NewCommandLog_def)
qed

text \<open>
  C1 (as amended): for every ExtractRequest that \<open>runExtractCommands\<close> answers with a
  response, every command of the request has added its entries to \<open>Cmd\<close>, in the order
  of the commands (\<open>contributions\<close>), and \<open>Output\<close> is built from these groups of
  entries, starting from the empty output (\<open>outputOfSteps\<close>): a command that the runner
  handles itself (a bare \<open>cd\<close>, a bare \<open>export\<close>) or that is suppressed by an unmet
  \<open>When\<close> adds exactly one entry and nothing to the output; every other command is
  executed and adds at least one entry (its own, after those of its sudo password exchange
  if there was one), whose stdouts are appended, concatenated, and before them a newline
  only when the output so far is not empty and does not end with a newline.
\<close>

theorem runExtractCommands_output:
  assumes "runExtractCommands fuel c sh ctx (Inr s) request
             = Some (Inr response, ctx', s', request')"
  shows "let s1 = snd (applyCommandOptions c sh ctx (ReqOptions request) s);
             steps = contributions fuel c sh ctx s1 (NewRunResponse (ID s1)) request
                       (Commands request)
         in length steps = length (Commands request)
            \<and> Cmd response = concat (map snd steps)
            \<and> Output response = outputOfSteps [] steps
            \<and> list_all (\<lambda>(sent, entries). entries \<noteq> [] \<and> (sent \<or> length entries = 1)) steps"
proof -
  define s1 where "s1 = snd (applyCommandOptions c sh ctx (ReqOptions request) s)"
  from assms obtain s2 where
    "runExtractCommandsLoop fuel c sh ctx s1 (NewRunResponse (ID s1)) request (Commands request)
       = Some (Inr response, ctx', s2, request')"
    by (auto simp: runExtractCommands_def Let_def s1_def split: prod.splits option.splits)
  from runExtractCommandsLoop_output [OF this] show ?thesis
    unfolding Let_def s1_def [symmetric] by (simp add: NewRunResponse_def)
qed

theorem runExtractCommands_output_witness:
  "runExtractCommands (Suc 0) plain echoing Map.empty (Inr fresh) twoCommands =
     Some (Inr \<lparr>Session = ''127.0.0.1:22'',
                Cmd = [\<lparr>Stdin = ''true'', Stdout = [], Error = None\<rparr>,
                       \<lparr>Stdin = ''echo hi'', Stdout = ''hi'', Error = None\<rparr>],
                Output = ''hi'', Data = []\<rparr>,
           [''os.user'' \<mapsto> ''dev''],
           Some (fresh\<lparr>trace := [RunEv ''true'' 0 [''$ '', ''# ''], RunEv ''echo hi'' 0 [''$ '', ''# '']]\<rparr>),
           twoCommands)
   \<and> contributions (Suc 0) plain echoing Map.empty fresh (NewRunResponse (ID fresh)) twoCommands
       (Commands twoCommands)
     = [(True, [\<lparr>Stdin = ''true'', Stdout = [], Error = None\<rparr>]),
        (True, [\<lparr>Stdin = ''echo hi'', Stdout = ''hi'', Error = None\<rparr>])]
   \<and> ''hi'' = outputOfSteps []
       [(True, [\<lparr>Stdin = ''true'', Stdout = [], Error = None\<rparr>]),
        (True, [\<lparr>Stdin = ''echo hi'', Stdout = ''hi'', Error = None\<rparr>])]"
proof -
  have opts: "snd (applyCommandOptions plain echoing Map.empty (ReqOptions twoCommands) fresh)
      = fresh"
    by (simp add: applyCommandOptions_def twoCommands_def)
  from runExtractCommands_output [OF twoCommands_run(1)]
  have "Output \<lparr>Session = ''127.0.0.1:22'',
                Cmd = [\<lparr>Stdin = ''true'', Stdout = [], Error = None\<rparr>,
                       \<lparr>Stdin = ''echo hi'', Stdout = ''hi'', Error = None\<rparr>],
                Output = ''hi'', Data = []\<rparr>
      = outputOfSteps []
          (contributions (Suc 0) plain echoing Map.empty fresh (NewRunResponse (ID fresh))
             twoCommands (Commands twoCommands))"
    unfolding Let_def opts by blast
  with twoCommands_run show ?thesis
    by (simp del: outputOfSteps.simps)
qed

text \<open>C1 as stated fails when a stdout is empty: after \<open>true\<close> (no stdout) and
  \<open>echo hi\<close> the output is \<open>hi\<close>, the newline-join of the two stdouts is a newline
  followed by \<open>hi\<close>.\<close>

theorem runExtractCommands_join_counterexample:
  "map_option Output
     (responseOf (runExtractCommands (Suc 0) plain echoing Map.empty (Inr fresh) twoCommands))
     = Some ''hi''
   \<and> map_option specOutput
     (responseOf (runExtractCommands (Suc 0) plain echoing Map.empty (Inr fresh) twoCommands))
     = Some (newline @ ''hi'')
   \<and> map_option Output
     (responseOf (runExtractCommands (Suc 0) plain echoing Map.empty (Inr fresh) twoCommands))
     \<noteq> map_option specOutput
     (responseOf (runExtractCommands (Suc 0) plain echoing Map.empty (Inr fresh) twoCommands))"
  by (simp add: twoCommands_run responseOf_def specOutput_def)

subsection \<open>Exporting twice\<close>

lemma export_not_cd: "HasPrefix command ''export '' \<Longrightarrow> \<not> HasPrefix command ''cd ''"
  by (cases command) auto

lemma Contains_Nil [simp]: "Contains s []"
  by (cases s) simp_all

lemma runExtractCommand_bare_export:
  assumes "bareExport (Expand c ctx (Command x))"
  shows "runExtractCommand fuel c sh ctx s x response request =
     Some (None, ctx,
       snd (setEnvVariable c sh ctx (forgetRemoved (Expand c ctx (Command x)) s)
              (fst (exportPair (Expand c ctx (Command x))))
              (snd (exportPair (Expand c ctx (Command x))))),
       Add response (NewCommandLog (Expand c ctx (Command x)) []
         (fst (setEnvVariable c sh ctx (forgetRemoved (Expand c ctx (Command x)) s)
              (fst (exportPair (Expand c ctx (Command x))))
              (snd (exportPair (Expand c ctx (Command x))))))),
       request)"
proof -
  define command where "command = Expand c ctx (Command x)"
  from assms have b: "HasPrefix command ''export ''" "\<not> Contains command ''&&''"
    "length (Split (drop 7 command) (CHR ''='')) = 2"
    by (simp_all add: bareExport_def command_def)
  from b(1) have ncd: "\<not> HasPrefix command ''cd ''" by (rule export_not_cd)
  show ?thesis
    unfolding runExtractCommand_def Let_def command_def [symmetric] forgetRemoved_def
      exportPair_def
    using b ncd by (simp split: prod.splits)
qed

lemma forgetRemoved_again:
  "CurrentDirectory s1 = CurrentDirectory (forgetRemoved command s) \<Longrightarrow>
     forgetRemoved command s1 = s1"
  by (auto simp: forgetRemoved_def)

lemma setEnvVariable_CurrentDirectory:
  "CurrentDirectory (snd (setEnvVariable c sh ctx s name newValue)) = CurrentDirectory s"
  by (cases "map_of (EnvVariables s) name = Some (Expand c ctx newValue)")
     (simp_all add: setEnvVariable_cached setEnvVariable_export)

lemma setEnvVariable_again:
  "setEnvVariable c sh ctx (snd (setEnvVariable c sh ctx s name newValue)) name newValue
     = (None, snd (setEnvVariable c sh ctx s name newValue))"
  by (cases "map_of (EnvVariables s) name = Some (Expand c ctx newValue)")
     (simp_all add: setEnvVariable_cached setEnvVariable_export update_conv')

lemma setEnvVariable_trace:
  "trace (snd (setEnvVariable c sh ctx s name newValue))
     = trace s @ (if map_of (EnvVariables s) name = Some (Expand c ctx newValue) then []
                  else [RunEv (exportCommand name (Expand c ctx newValue)) 1000 []])"
  by (cases "map_of (EnvVariables s) name = Some (Expand c ctx newValue)")
     (simp_all add: setEnvVariable_cached setEnvVariable_export)

text \<open>
  C5 (as amended): of two calls \<open>setEnvVariable(K, V)\<close> in a row the second is a no-op
  (nil error, session unchanged, nothing sent), because the expanded value equals the
  cached one; the first sends the export command once when the cached value of \<open>K\<close>
  differs from the expansion of \<open>V\<close> and sends nothing when it is already cached. So the
  two calls send the shell export at most once. In the loop of \<open>runExtractCommands\<close>
  the same holds for a command \<open>export K=V\<close> that the loop intercepts (no \<open>&&\<close>, the
  rest splits on \<open>=\<close> into exactly two parts): executed again right after itself, it
  logs an entry and leaves the session as it is.
\<close>

theorem export_twice:
  "setEnvVariable c sh ctx (snd (setEnvVariable c sh ctx s name newValue)) name newValue
     = (None, snd (setEnvVariable c sh ctx s name newValue))
   \<and> trace (snd (setEnvVariable c sh ctx s name newValue))
     = trace s @ (if map_of (EnvVariables s) name = Some (Expand c ctx newValue) then []
                  else [RunEv (exportCommand name (Expand c ctx newValue)) 1000 []])
   \<and> (bareExport (Expand c ctx (Command x)) \<longrightarrow>
        runExtractCommand fuel c sh ctx s x response request
          = Some (None, ctx,
                  snd (setEnvVariable c sh ctx (forgetRemoved (Expand c ctx (Command x)) s)
                         (fst (exportPair (Expand c ctx (Command x))))
                         (snd (exportPair (Expand c ctx (Command x))))),
                  Add response (NewCommandLog (Expand c ctx (Command x)) []
                    (fst (setEnvVariable c sh ctx (forgetRemoved (Expand c ctx (Command x)) s)
                           (fst (exportPair (Expand c ctx (Command x))))
                           (snd (exportPair (Expand c ctx (Command x))))))),
                  request)
        \<and> runExtractCommand fuel c sh ctx
            (snd (setEnvVariable c sh ctx (forgetRemoved (Expand c ctx (Command x)) s)
                    (fst (exportPair (Expand c ctx (Command x))))
                    (snd (exportPair (Expand c ctx (Command x))))))
            x response1 request
          = Some (None, ctx,
                  snd (setEnvVariable c sh ctx (forgetRemoved (Expand c ctx (Command x)) s)
                         (fst (exportPair (Expand c ctx (Command x))))
                         (snd (exportPair (Expand c ctx (Command x))))),
                  Add response1 (NewCommandLog (Expand c ctx (Command x)) [] None),
                  request))"
proof (intro conjI impI)
  show "setEnvVariable c sh ctx (snd (setEnvVariable c sh ctx s name newValue)) name newValue
     = (None, snd (setEnvVariable c sh ctx s name newValue))"
    by (rule setEnvVariable_again)
  show "trace (snd (setEnvVariable c sh ctx s name newValue))
     = trace s @ (if map_of (EnvVariables s) name = Some (Expand c ctx newValue) then []
                  else [RunEv (exportCommand name (Expand c ctx newValue)) 1000 []])"
    by (rule setEnvVariable_trace)
next
  assume b: "bareExport (Expand c ctx (Command x))"
  then show "runExtractCommand fuel c sh ctx s x response request
          = Some (None, ctx,
                  snd (setEnvVariable c sh ctx (forgetRemoved (Expand c ctx (Command x)) s)
                         (fst (exportPair (Expand c ctx (Command x))))
                         (snd (exportPair (Expand c ctx (Command x))))),
                  Add response (NewCommandLog (Expand c ctx (Command x)) []
                    (fst (setEnvVariable c sh ctx (forgetRemoved (Expand c ctx (Command x)) s)
                           (fst (exportPair (Expand c ctx (Command x))))
                           (snd (exportPair (Expand c ctx (Command x))))))),
                  request)"
    by (rule runExtractCommand_bare_export)
  define command where "command = Expand c ctx (Command x)"
  define s0 where "s0 = forgetRemoved command s"
  define k where "k = fst (exportPair command)"
  define v where "v = snd (exportPair command)"
  define s1 where "s1 = snd (setEnvVariable c sh ctx s0 k v)"
  have "CurrentDirectory s1 = CurrentDirectory (forgetRemoved command s)"
    by (simp add: s1_def s0_def setEnvVariable_CurrentDirectory)
  then have f: "forgetRemoved command s1 = s1"
    by (rule forgetRemoved_again)
  have again: "setEnvVariable c sh ctx s1 k v = (None, s1)"
    unfolding s1_def by (rule setEnvVariable_again)
  have "runExtractCommand fuel c sh ctx s1 x response1 request
      = Some (None, ctx, s1, Add response1 (NewCommandLog command [] None), request)"
    using runExtractCommand_bare_export [OF b, of fuel sh s1 response1 request]
    by (simp add: command_def [symmetric] f k_def [symmetric] v_def [symmetric] again)
  then show "runExtractCommand fuel c sh ctx
            (snd (setEnvVariable c sh ctx (forgetRemoved (Expand c ctx (Command x)) s)
                    (fst (exportPair (Expand c ctx (Command x))))
                    (snd (exportPair (Expand c ctx (Command x))))))
            x response1 request
          = Some (None, ctx,
                  snd (setEnvVariable c sh ctx (forgetRemoved (Expand c ctx (Command x)) s)
                         (fst (exportPair (Expand c ctx (Command x))))
                         (snd (exportPair (Expand c ctx (Command x))))),
                  Add response1 (NewCommandLog (Expand c ctx (Command x)) [] None),
                  request)"
    unfolding command_def s1_def s0_def k_def v_def .
qed

lemma runExtractCommand_plain_export:
  assumes "HasPrefix t ''export ''" and "\<not> Contains t ''rm ''" and "\<not> bareExport t"
  shows "runExtractCommand fuel plain sh ctx s (plainCommand t) response request
           = executeCommand fuel plain sh ctx (s\<lparr>EnvVariables := []\<rparr>) (plainCommand t)
               response request"
  using assms export_not_cd [OF assms(1)]
  by (auto simp: runExtractCommand_def bareExport_def Let_def)

theorem export_twice_witness:
  "bareExport (Expand plain Map.empty (Command (plainCommand ''export K=v'')))
   \<and> exportPair ''export K=v'' = (''K'', ''v'')
   \<and> runExtractCommand 0 plain obliging Map.empty fresh (plainCommand ''export K=v'')
        (NewRunResponse ''x'') noRequest
       = Some (None, Map.empty,
               fresh\<lparr>EnvVariables := [(''K'', ''v'')], trace := [RunEv ''export K=v'' 1000 []]\<rparr>,
               Add (NewRunResponse ''x'') (NewCommandLog ''export K=v'' [] None), noRequest)
   \<and> runExtractCommand 0 plain obliging Map.empty
        (fresh\<lparr>EnvVariables := [(''K'', ''v'')], trace := [RunEv ''export K=v'' 1000 []]\<rparr>)
        (plainCommand ''export K=v'')
        (Add (NewRunResponse ''x'') (NewCommandLog ''export K=v'' [] None)) noRequest
       = Some (None, Map.empty,
               fresh\<lparr>EnvVariables := [(''K'', ''v'')], trace := [RunEv ''export K=v'' 1000 []]\<rparr>,
               Add (Add (NewRunResponse ''x'') (NewCommandLog ''export K=v'' [] None))
                 (NewCommandLog ''export K=v'' [] None), noRequest)"
proof -
  have b: "bareExport (Expand plain Map.empty (Command (plainCommand ''export K=v'')))"
    by (simp add: bareExport_def)
  have p: "exportPair ''export K=v'' = (''K'', ''v'')"
    by (simp add: exportPair_def TrimSpace_def Trim_def dropRunes.simps spaceRunes_def)
  have f: "forgetRemoved ''export K=v'' fresh = fresh"
    by (simp add: forgetRemoved_def)
  have e: "setEnvVariable plain obliging Map.empty fresh ''K'' ''v''
      = (None, fresh\<lparr>EnvVariables := [(''K'', ''v'')], trace := [RunEv ''export K=v'' 1000 []]\<rparr>)"
    by (simp add: setEnvVariable_def rumCommandTemplate_def SessionRun_def obliging_def
        fresh_def TrimSpace_def dropRunes.simps spaceRunes_def Let_def)
  have x: "Expand plain Map.empty (Command (plainCommand ''export K=v'')) = ''export K=v''"
    by simp
  from export_twice [of plain obliging Map.empty fresh "''K''" "''v''"
      "plainCommand ''export K=v''" 0 "NewRunResponse ''x''" noRequest
      "Add (NewRunResponse ''x'') (NewCommandLog ''export K=v'' [] None)"] b
  have "runExtractCommand 0 plain obliging Map.empty fresh (plainCommand ''export K=v'')
          (NewRunResponse ''x'') noRequest
          = Some (None, Map.empty,
                  snd (setEnvVariable plain obliging Map.empty (forgetRemoved ''export K=v'' fresh)
                         (fst (exportPair ''export K=v'')) (snd (exportPair ''export K=v''))),
                  Add (NewRunResponse ''x'') (NewCommandLog ''export K=v'' []
                    (fst (setEnvVariable plain obliging Map.empty (forgetRemoved ''export K=v'' fresh)
                           (fst (exportPair ''export K=v'')) (snd (exportPair ''export K=v''))))),
                  noRequest)
        \<and> runExtractCommand 0 plain obliging Map.empty
            (snd (setEnvVariable plain obliging Map.empty (forgetRemoved ''export K=v'' fresh)
                    (fst (exportPair ''export K=v'')) (snd (exportPair ''export K=v''))))
            (plainCommand ''export K=v'')
            (Add (NewRunResponse ''x'') (NewCommandLog ''export K=v'' [] None)) noRequest
          = Some (None, Map.empty,
                  snd (setEnvVariable plain obliging Map.empty (forgetRemoved ''export K=v'' fresh)
                         (fst (exportPair ''export K=v'')) (snd (exportPair ''export K=v''))),
                  Add (Add (NewRunResponse ''x'') (NewCommandLog ''export K=v'' [] None))
                    (NewCommandLog ''export K=v'' [] None),
                  noRequest)"
    unfolding x by blast
  then show ?thesis
    unfolding f p fst_conv snd_conv e using b p by blast
qed

text \<open>C5 as stated fails on a session that has the value cached already: the two calls
  send nothing, not one export. It also fails for a value that contains \<open>=\<close>: the loop
  does not intercept \<open>export K=a=b\<close>, and the executor sends it to the shell both
  times.\<close>

theorem export_twice_counterexample:
  "trace cached = []
   \<and> trace (snd (setEnvVariable plain obliging Map.empty
        (snd (setEnvVariable plain obliging Map.empty cached ''K'' ''v'')) ''K'' ''v'')) = []
   \<and> runExtractCommand (Suc 0) plain obliging Map.empty fresh (plainCommand ''export K=a=b'')
        (NewRunResponse ''x'') noRequest
       = Some (None, [''os.user'' \<mapsto> ''dev''],
               fresh\<lparr>trace := [RunEv ''export K=a=b'' 0 [''$ '', ''# '']]\<rparr>,
               Add (NewRunResponse ''x'') (NewCommandLog ''export K=a=b'' [] None), noRequest)
   \<and> map_option trace (sessionOf
        (runExtractCommand (Suc 0) plain obliging [''os.user'' \<mapsto> ''dev'']
           (fresh\<lparr>trace := [RunEv ''export K=a=b'' 0 [''$ '', ''# '']]\<rparr>)
           (plainCommand ''export K=a=b'')
           (Add (NewRunResponse ''x'') (NewCommandLog ''export K=a=b'' [] None)) noRequest))
       = Some [RunEv ''export K=a=b'' 0 [''$ '', ''# ''], RunEv ''export K=a=b'' 0 [''$ '', ''# '']]"
proof -
  have c: "trace cached = []
   \<and> trace (snd (setEnvVariable plain obliging Map.empty
        (snd (setEnvVariable plain obliging Map.empty cached ''K'' ''v'')) ''K'' ''v'')) = []"
    by (simp add: setEnvVariable_def cached_def fresh_def plain_def Let_def)
  have nb: "\<not> bareExport ''export K=a=b''"
    by (simp add: bareExport_def)
  have x: "executeCommand (Suc 0) plain obliging ctx s (plainCommand ''export K=a=b'') r noRequest
      = Some (None, ctx(''os.user'' \<mapsto> Username s),
              s\<lparr>trace := trace s @ [RunEv ''export K=a=b'' 0 [''$ '', ''# '']]\<rparr>,
              r\<lparr>Output := separated (Output r) @ [],
                Cmd := Cmd r @ [NewCommandLog ''export K=a=b'' [] None]\<rparr>, noRequest)"
    for ctx s r
    by (rule executeCommand_plain) (simp_all add: obliging_def scripted_def)
  have 1: "runExtractCommand (Suc 0) plain obliging Map.empty fresh (plainCommand ''export K=a=b'')
        (NewRunResponse ''x'') noRequest
       = Some (None, [''os.user'' \<mapsto> ''dev''],
               fresh\<lparr>trace := [RunEv ''export K=a=b'' 0 [''$ '', ''# '']]\<rparr>,
               Add (NewRunResponse ''x'') (NewCommandLog ''export K=a=b'' [] None), noRequest)"
    using nb
    by (simp add: runExtractCommand_plain_export x fresh_def Add_def NewRunResponse_def
        separated_def del: executeCommand.simps)
  have 2: "map_option trace (sessionOf
        (runExtractCommand (Suc 0) plain obliging [''os.user'' \<mapsto> ''dev'']
           (fresh\<lparr>trace := [RunEv ''export K=a=b'' 0 [''$ '', ''# '']]\<rparr>)
           (plainCommand ''export K=a=b'')
           (Add (NewRunResponse ''x'') (NewCommandLog ''export K=a=b'' [] None)) noRequest))
       = Some [RunEv ''export K=a=b'' 0 [''$ '', ''# ''], RunEv ''export K=a=b'' 0 [''$ '', ''# '']]"
    using nb
    by (simp add: runExtractCommand_plain_export x fresh_def sessionOf_def
        del: executeCommand.simps)
  from c 1 2 show ?thesis by blast
qed

subsection \<open>An export that is not a single assignment\<close>

text \<open>
  C10: for a command whose expanded text starts with \<open>export \<close>, does not contain
  \<open>&&\<close> and whose rest does not split on \<open>=\<close> into exactly two parts, the runner
  hands the command to \<open>executeCommand\<close> on a session whose \<open>EnvVariables\<close> map has
  been reset to empty (and whose \<open>CurrentDirectory\<close> has been reset if the \<open>rm\<close> check
  applies).
\<close>

theorem export_without_pair_resets_env:
  assumes "HasPrefix (Expand c ctx (Command x)) ''export ''"
    and "\<not> Contains (Expand c ctx (Command x)) ''&&''"
    and "length (Split (drop 7 (Expand c ctx (Command x))) (CHR ''='')) \<noteq> 2"
  shows "runExtractCommand fuel c sh ctx s x response request =
           executeCommand fuel c sh ctx
             ((if Contains (Expand c ctx (Command x)) ''rm ''
                  \<and> Contains (Expand c ctx (Command x)) (CurrentDirectory s)
               then s\<lparr>CurrentDirectory := []\<rparr> else s)\<lparr>EnvVariables := []\<rparr>)
             x response request"
  using assms export_not_cd [OF assms(1)]
  by (simp add: runExtractCommand_def Let_def)

theorem export_without_pair_resets_env_witness:
  "HasPrefix (Expand plain Map.empty (Command (plainCommand ''export K=a=b''))) ''export ''
   \<and> \<not> Contains (Expand plain Map.empty (Command (plainCommand ''export K=a=b''))) ''&&''
   \<and> length (Split (drop 7 (Expand plain Map.empty (Command (plainCommand ''export K=a=b''))))
         (CHR ''='')) \<noteq> 2
   \<and> EnvVariables cached = [(''K'', ''v'')]
   \<and> map_option EnvVariables
        (sessionOf (runExtractCommand (Suc 0) plain obliging Map.empty cached
           (plainCommand ''export K=a=b'') (NewRunResponse ''x'') noRequest)) = Some []
   \<and> map_option trace
        (sessionOf (runExtractCommand (Suc 0) plain obliging Map.empty cached
           (plainCommand ''export K=a=b'') (NewRunResponse ''x'') noRequest))
        = Some [RunEv ''export K=a=b'' 0 [''$ '', ''# '']]"
proof -
  have h1: "HasPrefix (Expand plain Map.empty (Command (plainCommand ''export K=a=b''))) ''export ''"
    by simp
  have h2: "\<not> Contains (Expand plain Map.empty (Command (plainCommand ''export K=a=b''))) ''&&''"
    by simp
  have h3: "length (Split (drop 7 (Expand plain Map.empty (Command (plainCommand ''export K=a=b''))))
         (CHR ''='')) \<noteq> 2"
    by simp
  have rm: "\<not> Contains ''export K=a=b'' ''rm ''" by simp
  have "runExtractCommand (Suc 0) plain obliging Map.empty cached
           (plainCommand ''export K=a=b'') (NewRunResponse ''x'') noRequest
        = executeCommand (Suc 0) plain obliging Map.empty (cached\<lparr>EnvVariables := []\<rparr>)
            (plainCommand ''export K=a=b'') (NewRunResponse ''x'') noRequest"
    using export_without_pair_resets_env [OF h1 h2 h3, of "Suc 0" obliging cached
        "NewRunResponse ''x''" noRequest] rm
    by simp
  also have "\<dots> = Some (None, [''os.user'' \<mapsto> Username (cached\<lparr>EnvVariables := []\<rparr>)],
        cached\<lparr>EnvVariables := [],
               trace := trace (cached\<lparr>EnvVariables := []\<rparr>) @ [RunEv ''export K=a=b'' 0 [''$ '', ''# '']]\<rparr>,
        (NewRunResponse ''x'')\<lparr>Output := separated (Output (NewRunResponse ''x'')) @ [],
           Cmd := Cmd (NewRunResponse ''x'') @ [NewCommandLog ''export K=a=b'' [] None]\<rparr>, noRequest)"
    by (rule executeCommand_plain) (simp_all add: obliging_def scripted_def)
  finally show ?thesis
    using h1 h2 h3 by (simp add: sessionOf_def cached_def fresh_def)
qed

subsection \<open>The terminators that reach the shell\<close>

text \<open>The list that \<open>getTerminators\<close> assembles, in closed form.\<close>

lemma getTerminators_assembly:
  "getTerminators options prompt execution =
     (if Terminators execution \<noteq> [] then Terminators execution else OptTerminators options)
     @ [''$ '',
        if Contains (Replace prompt (CHR ''$'') ''#'' 1) ''bash''
        then drop 2 (Replace prompt (CHR ''$'') ''#'' 1)
        else Replace prompt (CHR ''$'') ''#'' 1]
     @ Errors execution"
  by (simp add: getTerminators_def Let_def)

text \<open>Whatever the service sends is appended to the history of the session: the helpers
  only extend the trace, and \<open>run\<close> starts with the request for the command itself.\<close>

lemma setEnvVariable_extends:
  "\<exists>rest. trace (snd (setEnvVariable c sh ctx s name newValue)) = trace s @ rest"
  by (simp add: setEnvVariable_trace)

lemma reexport_extends:
  "\<exists>rest. trace (foldl (\<lambda>s (k, v). snd (setEnvVariable c sh ctx s k v)) s env) = trace s @ rest"
proof (induction env arbitrary: s)
  case Nil
  then show ?case by simp
next
  case (Cons kv env)
  obtain k v where kv: "kv = (k, v)" by (cases kv)
  from setEnvVariable_extends obtain r1 where
    "trace (snd (setEnvVariable c sh ctx s k v)) = trace s @ r1" by blast
  moreover from Cons.IH obtain r2 where
    "trace (foldl (\<lambda>s (k, v). snd (setEnvVariable c sh ctx s k v))
       (snd (setEnvVariable c sh ctx s k v)) env)
     = trace (snd (setEnvVariable c sh ctx s k v)) @ r2" by blast
  ultimately show ?case by (simp add: kv)
qed

lemma changeDirectory_extends:
  "\<exists>rest. trace (snd (changeDirectory c sh s directory)) = trace s @ rest"
  by (simp add: changeDirectory_unfold rumCommandTemplate_def SessionRun_def Let_def
      split: option.splits prod.splits)

lemma run_first:
  "\<exists>rest. trace (snd (run c sh ctx s command timeoutMs terminators))
     = trace s @ RunEv command timeoutMs terminators # rest"
proof -
  define s1 where "s1 = s\<lparr>trace := trace s @ [RunEv command timeoutMs terminators]\<rparr>"
  define s2 where "s2 = s1\<lparr>trace := trace s1 @ [ReconnectEv]\<rparr>"
  define s3 where "s3 = foldl (\<lambda>s (k, v). snd (setEnvVariable c sh ctx s k v))
                          (s2\<lparr>EnvVariables := [], CurrentDirectory := []\<rparr>) (EnvVariables s2)"
  define s4 where "s4 = snd (changeDirectory c sh s3 (CurrentDirectory s2))"
  have t1: "trace s1 = trace s @ [RunEv command timeoutMs terminators]"
    by (simp add: s1_def)
  have t2: "trace s2 = trace s1 @ [ReconnectEv]"
    by (simp add: s2_def)
  from reexport_extends [of c sh ctx "s2\<lparr>EnvVariables := [], CurrentDirectory := []\<rparr>"
      "EnvVariables s2"]
  obtain r3 where t3: "trace s3 = trace s2 @ r3"
    by (auto simp: s3_def)
  from changeDirectory_extends [of c sh s3 "CurrentDirectory s2"]
  obtain r4 where t4: "trace s4 = trace s3 @ r4"
    by (auto simp: s4_def)
  have "snd (run c sh ctx s command timeoutMs terminators) = s1
      \<or> snd (run c sh ctx s command timeoutMs terminators) = s2
      \<or> snd (run c sh ctx s command timeoutMs terminators)
          = s4\<lparr>trace := trace s4 @ [RunEv command timeoutMs terminators]\<rparr>"
    unfolding run_def SessionRun_def SessionReconnect_def Let_def s1_def [symmetric]
    by (auto simp: s2_def [symmetric] s3_def [symmetric] s4_def
        split: option.splits prod.splits)
  then consider (once) "snd (run c sh ctx s command timeoutMs terminators) = s1"
    | (lost) "snd (run c sh ctx s command timeoutMs terminators) = s2"
    | (again) "snd (run c sh ctx s command timeoutMs terminators)
          = s4\<lparr>trace := trace s4 @ [RunEv command timeoutMs terminators]\<rparr>"
    by blast
  then show ?thesis
  proof cases
    case once
    then show ?thesis by (simp add: t1)
  next
    case lost
    then show ?thesis by (simp add: t1 t2)
  next
    case again
    then show ?thesis by (simp add: t1 t2 t3 t4)
  qed
qed

lemma completeCommand_extends:
  assumes "completeCommand c sh ctx s x options terminators securedCommand out err super
             response request = Some (e, ctx', s', r', request')"
  shows "\<exists>rest. trace s' = trace s @ rest"
proof -
  from assms have
    "s' = s \<or> s' = snd (run c sh ctx s ''echo $?'' (OptTimeoutMs options) terminators)"
    by (auto simp: completeCommand_def Let_def split: if_splits prod.splits option.splits)
  then show ?thesis
  proof
    assume "s' = s"
    then show ?thesis by simp
  next
    assume "s' = snd (run c sh ctx s ''echo $?'' (OptTimeoutMs options) terminators)"
    with run_first [of c sh ctx s "''echo $?''" "OptTimeoutMs options" terminators]
    show ?thesis by auto
  qed
qed

lemma authSuperUserIfNeeded_extends:
  assumes "authSuperUserIfNeeded exec c out ctx s x response request
             = Some (e, ctx', s', r', request')"
    and IH: "\<And>ctx s x r request e ctx' s' r' request'.
           exec ctx s x r request = Some (e, ctx', s', r', request') \<Longrightarrow>
           \<exists>rest. trace s' = trace s @ rest"
  shows "\<exists>rest. trace s' = trace s @ rest"
proof (cases "s' = s")
  case True
  then show ?thesis by simp
next
  case False
  with assms(1) obtain x1 request1 where
    "exec ctx (s\<lparr>SuperUSerAuth := True\<rparr>) x1 response request1 = Some (e, ctx', s', r', request')"
    by (auto simp: authSuperUserIfNeeded_def Let_def split: if_splits)
  from IH [OF this] show ?thesis by simp
qed

lemma runAndComplete_first:
  assumes res: "runAndComplete exec c sh ctx s x options terminators securedCommand
                  insecureCommand timeoutMs super response request
                  = Some (e, ctx', s', r', request')"
    and IH: "\<And>ctx s x r request e ctx' s' r' request'.
           exec ctx s x r request = Some (e, ctx', s', r', request') \<Longrightarrow>
           \<exists>rest. trace s' = trace s @ rest"
  shows "(\<exists>rest. trace s' = trace s @ RunEv insecureCommand timeoutMs terminators # rest)
     \<and> (case run c sh ctx s insecureCommand timeoutMs terminators of
          ((out, err), s1) \<Rightarrow>
            if AutoSudo request \<and> \<not> IsPermitted c out \<and> Username s1 \<noteq> ''root''
               \<and> \<not> HasPrefix securedCommand ''sudo''
            then \<exists>rest. trace s' = trace s1
                   @ RunEv (commandAsSuperUser s1 insecureCommand) (OptTimeoutMs options)
                       (terminators @ [''Password'']) # rest
            else \<exists>rest. trace s' = trace s1 @ rest)"
proof -
  define r1 where "r1 = response\<lparr>Output := separated (Output response)\<rparr>"
  obtain out1 err1 s1 where
    run1: "run c sh ctx s insecureCommand timeoutMs terminators = ((out1, err1), s1)"
    by (metis prod.exhaust)
  from run_first [of c sh ctx s insecureCommand timeoutMs terminators] obtain rest1 where
    t1: "trace s1 = trace s @ RunEv insecureCommand timeoutMs terminators # rest1"
    by (auto simp: run1)
  define retry where "retry = (AutoSudo request \<and> \<not> IsPermitted c out1 \<and> Username s1 \<noteq> ''root''
                   \<and> \<not> HasPrefix securedCommand ''sudo'')"
  obtain out err s2 where
    second: "(if retry
              then retryWithSudo c sh ctx s1 insecureCommand (OptTimeoutMs options) terminators
              else ((out1, err1), s1)) = ((out, err), s2)"
    by (metis prod.exhaust)
  have t2: "if retry
            then \<exists>rest. trace s2 = trace s1
                   @ RunEv (commandAsSuperUser s1 insecureCommand) (OptTimeoutMs options)
                       (terminators @ [''Password'']) # rest
            else trace s2 = trace s1"
  proof (cases retry)
    case True
    with second have "s2 = snd (run c sh ctx s1 (commandAsSuperUser s1 insecureCommand)
        (OptTimeoutMs options) (terminators @ [''Password'']))"
      by (simp add: retryWithSudo_def Let_def)
    with run_first [of c sh ctx s1 "commandAsSuperUser s1 insecureCommand"
        "OptTimeoutMs options" "terminators @ [''Password'']"] True
    show ?thesis by auto
  next
    case False
    with second show ?thesis by simp
  qed
  define super' where "super' = (super \<or> retry)"
  define a where "a = (if super' then authSuperUserIfNeeded exec c out ctx s2 x r1 request
                       else Some (None, ctx, s2, r1, request))"
  have "runAndComplete exec c sh ctx s x options terminators securedCommand
                  insecureCommand timeoutMs super response request
      = (case a of
          None \<Rightarrow> None
        | Some (Some e, ctx, s, response, request) \<Rightarrow> Some (Some e, ctx, s, response, request)
        | Some (None, ctx, s, response, request) \<Rightarrow>
            completeCommand c sh ctx s x options terminators securedCommand
              out err super' response request)"
    unfolding runAndComplete_def Let_def run1 prod.case retry_def [symmetric] second
      super'_def [symmetric] r1_def [symmetric] a_def [symmetric] ..
  with res obtain e3 ctx3 s3 r3 request3 where
    a: "a = Some (e3, ctx3, s3, r3, request3)"
    and fin: "(e3 \<noteq> None \<and> s' = s3)
       \<or> completeCommand c sh ctx3 s3 x options terminators securedCommand out err super'
                 r3 request3 = Some (e, ctx', s', r', request')"
    by (auto split: option.splits)
  have "\<exists>rest. trace s3 = trace s2 @ rest"
  proof (cases super')
    case True
    with a have "authSuperUserIfNeeded exec c out ctx s2 x r1 request
                   = Some (e3, ctx3, s3, r3, request3)"
      by (simp add: a_def)
    then show ?thesis using IH by (rule authSuperUserIfNeeded_extends)
  next
    case False
    with a show ?thesis by (simp add: a_def)
  qed
  then obtain rest3 where t3: "trace s3 = trace s2 @ rest3" ..
  from fin have "\<exists>rest. trace s' = trace s3 @ rest"
  proof
    assume "e3 \<noteq> None \<and> s' = s3"
    then show ?thesis by simp
  next
    assume "completeCommand c sh ctx3 s3 x options terminators securedCommand out err super'
                 r3 request3 = Some (e, ctx', s', r', request')"
    then show ?thesis by (rule completeCommand_extends)
  qed
  then obtain rest4 where t4: "trace s' = trace s3 @ rest4" ..
  have after: "if retry
            then \<exists>rest. trace s' = trace s1
                   @ RunEv (commandAsSuperUser s1 insecureCommand) (OptTimeoutMs options)
                       (terminators @ [''Password'']) # rest
            else \<exists>rest. trace s' = trace s1 @ rest"
    using t2 t3 t4 by (cases retry) auto
  then have first: "\<exists>rest. trace s' = trace s @ RunEv insecureCommand timeoutMs terminators # rest"
    using t1 by (cases retry) auto
  from after have "case run c sh ctx s insecureCommand timeoutMs terminators of
          ((out, err), s1) \<Rightarrow>
            if AutoSudo request \<and> \<not> IsPermitted c out \<and> Username s1 \<noteq> ''root''
               \<and> \<not> HasPrefix securedCommand ''sudo''
            then \<exists>rest. trace s' = trace s1
                   @ RunEv (commandAsSuperUser s1 insecureCommand) (OptTimeoutMs options)
                       (terminators @ [''Password'']) # rest
            else \<exists>rest. trace s' = trace s1 @ rest"
    unfolding run1 prod.case retry_def [symmetric] .
  with first show ?thesis ..
qed

text \<open>The body of \<open>executeCommand\<close> up to the call of \<open>run\<close>, with the command text
  and the terminators by name.\<close>

lemma executeCommandBody_prepared:
  "executeCommandBody exec c sh ctx s x response request =
     (if suppressed c ctx s x response
      then Some (snd (Evaluate c (ctx(''os.user'' \<mapsto> Username s))
                        (buildExecutionState response (ctx(''os.user'' \<mapsto> Username s))) (When x)),
                 ctx(''os.user'' \<mapsto> Username s), s,
                 Add response (NewCommandLog (Expand c (ctx(''os.user'' \<mapsto> Username s)) (Command x)) []
                   (snd (Evaluate c (ctx(''os.user'' \<mapsto> Username s))
                        (buildExecutionState response (ctx(''os.user'' \<mapsto> Username s))) (When x)))),
                 request)
      else
        case SecretsExpand c (securedCommandText c ctx s x response request) (Secrets request) of
          Inl e \<Rightarrow> Some (Some e, ctx(''os.user'' \<mapsto> Username s), s, response, request)
        | Inr insecureCommand \<Rightarrow>
            runAndComplete exec c sh (ctx(''os.user'' \<mapsto> Username s)) s x (ReqOptions request)
              (getTerminators (ReqOptions request) (ShellPrompt sh (trace s)) x
               @ (if (Contains (Expand c (ctx(''os.user'' \<mapsto> Username s)) (Command x)) ''sudo ''
                        \<or> SuperUser request) \<and> \<not> SuperUSerAuth s
                  then [''Password''] else []))
              (if SecretReveal c then insecureCommand
               else securedCommandText c ctx s x response request)
              insecureCommand
              (if TimeoutMs x > 0 then TimeoutMs x else OptTimeoutMs (ReqOptions request))
              (Contains (Expand c (ctx(''os.user'' \<mapsto> Username s)) (Command x)) ''sudo ''
                 \<or> SuperUser request)
              response request)"
proof -
  have t: "(if P then g @ [''Password''] else g) = g @ (if P then [''Password''] else [])"
    for P and g :: "string list"
    by simp
  show ?thesis
    unfolding executeCommandBody_unfold suppressed_def securedCommandText_def Let_def t ..
qed

lemma executeCommandBody_run:
  assumes res: "executeCommandBody exec c sh ctx s x response request
                  = Some (e, ctx', s', r', request')"
    and changed: "s' \<noteq> s"
  obtains command where
    "SecretsExpand c (securedCommandText c ctx s x response request) (Secrets request)
       = Inr command"
    "runAndComplete exec c sh (ctx(''os.user'' \<mapsto> Username s)) s x
        (ReqOptions request)
        (getTerminators (ReqOptions request) (ShellPrompt sh (trace s)) x
         @ (if (Contains (Expand c (ctx(''os.user'' \<mapsto> Username s)) (Command x)) ''sudo ''
                  \<or> SuperUser request) \<and> \<not> SuperUSerAuth s
            then [''Password''] else []))
        (if SecretReveal c then command else securedCommandText c ctx s x response request)
        command
        (if TimeoutMs x > 0 then TimeoutMs x else OptTimeoutMs (ReqOptions request))
        (Contains (Expand c (ctx(''os.user'' \<mapsto> Username s)) (Command x)) ''sudo ''
           \<or> SuperUser request)
        response request = Some (e, ctx', s', r', request')"
proof (cases "suppressed c ctx s x response")
  case True
  with res have "s' = s"
    by (simp add: executeCommandBody_prepared)
  with changed show ?thesis ..
next
  case False
  show ?thesis
  proof (cases "SecretsExpand c (securedCommandText c ctx s x response request) (Secrets request)")
    case (Inl failed)
    with res False have "s' = s"
      by (simp add: executeCommandBody_prepared)
    with changed show ?thesis ..
  next
    case (Inr command)
    with res False have "runAndComplete exec c sh (ctx(''os.user'' \<mapsto> Username s)) s x
        (ReqOptions request)
        (getTerminators (ReqOptions request) (ShellPrompt sh (trace s)) x
         @ (if (Contains (Expand c (ctx(''os.user'' \<mapsto> Username s)) (Command x)) ''sudo ''
                  \<or> SuperUser request) \<and> \<not> SuperUSerAuth s
            then [''Password''] else []))
        (if SecretReveal c then command else securedCommandText c ctx s x response request)
        command
        (if TimeoutMs x > 0 then TimeoutMs x else OptTimeoutMs (ReqOptions request))
        (Contains (Expand c (ctx(''os.user'' \<mapsto> Username s)) (Command x)) ''sudo ''
           \<or> SuperUser request)
        response request = Some (e, ctx', s', r', request')"
      by (simp only: executeCommandBody_prepared if_False sum.case)
    with Inr show ?thesis by (rule that)
  qed
qed

lemma executeCommand_extends:
  "executeCommand fuel c sh ctx s x response request = Some (e, ctx', s', r', request') \<Longrightarrow>
     \<exists>rest. trace s' = trace s @ rest"
proof (induction fuel arbitrary: ctx s x response request e ctx' s' r' request')
  case 0
  then show ?case by simp
next
  case (Suc fuel)
  from Suc.prems have body:
    "executeCommandBody (executeCommand fuel c sh) c sh ctx s x response request
       = Some (e, ctx', s', r', request')"
    by simp
  show ?case
  proof (cases "s' = s")
    case True
    then show ?thesis by simp
  next
    case False
    with body obtain command where
      "runAndComplete (executeCommand fuel c sh) c sh (ctx(''os.user'' \<mapsto> Username s)) s x
        (ReqOptions request)
        (getTerminators (ReqOptions request) (ShellPrompt sh (trace s)) x
         @ (if (Contains (Expand c (ctx(''os.user'' \<mapsto> Username s)) (Command x)) ''sudo ''
                  \<or> SuperUser request) \<and> \<not> SuperUSerAuth s
            then [''Password''] else []))
        (if SecretReveal c then command else securedCommandText c ctx s x response request)
        command
        (if TimeoutMs x > 0 then TimeoutMs x else OptTimeoutMs (ReqOptions request))
        (Contains (Expand c (ctx(''os.user'' \<mapsto> Username s)) (Command x)) ''sudo ''
           \<or> SuperUser request)
        response request = Some (e, ctx', s', r', request')"
      by (rule executeCommandBody_run)
    from conjunct1 [OF runAndComplete_first [OF this Suc.IH]] obtain rest where
      "trace s' = trace s @ RunEv command
         (if TimeoutMs x > 0 then TimeoutMs x else OptTimeoutMs (ReqOptions request))
         (getTerminators (ReqOptions request) (ShellPrompt sh (trace s)) x
          @ (if (Contains (Expand c (ctx(''os.user'' \<mapsto> Username s)) (Command x)) ''sudo ''
                   \<or> SuperUser request) \<and> \<not> SuperUSerAuth s
             then [''Password''] else [])) # rest" ..
    then show ?thesis by (rule exI)
  qed
qed

text \<open>Three runs of the executor at concrete inputs: \<open>ls\<close> on a shell whose prompt is
  \<open>bash-3.2$ \<close>; \<open>sudo ls\<close> on a session that has not authenticated sudo; and \<open>ls\<close>
  with \<open>AutoSudo\<close> on a shell that denies the permission, so that the command is retried
  under sudo.\<close>

lemma executeCommand_bash:
  "executeCommand (Suc 0) plain bashPrompt Map.empty fresh (plainCommand ''ls'')
       (NewRunResponse ''id'') noRequest
     = Some (None, [''os.user'' \<mapsto> ''dev''],
             fresh\<lparr>trace := [RunEv ''ls'' 0 [''$ '', ''sh-3.2# '']]\<rparr>,
             \<lparr>Session = ''id'', Cmd = [\<lparr>Stdin = ''ls'', Stdout = [], Error = None\<rparr>],
               Output = [], Data = []\<rparr>,
             noRequest)"
proof -
  have g: "getTerminators noOptions ''bash-3.2$ '' (plainCommand ''ls'') = [''$ '', ''sh-3.2# '']"
    by (simp add: getTerminators_def Let_def)
  have p: "ShellPrompt bashPrompt (trace fresh) = ''bash-3.2$ ''" "Username fresh = ''dev''"
    by (simp_all add: bashPrompt_def fresh_def)
  have r: "run plain bashPrompt ctx fresh ''ls'' 0 [''$ '', ''sh-3.2# '']
             = (([], None), fresh\<lparr>trace := trace fresh @ [RunEv ''ls'' 0 [''$ '', ''sh-3.2# '']]\<rparr>)"
    for ctx
    by (rule run_ok) (simp add: bashPrompt_def obliging_def scripted_def)
  show ?thesis
    by (simp add: executeCommandBody_unfold runAndComplete_def completeCommand_def Let_def
        p g r validateStdout_def Add_def NewCommandLog_def NewRunResponse_def separated_def)
       (simp add: fresh_def)
qed

lemma executeCommand_sudo:
  "executeCommand (Suc 0) plain obliging Map.empty fresh (plainCommand ''sudo ls'')
       (NewRunResponse ''id'') noRequest
     = Some (None, [''os.user'' \<mapsto> ''dev''],
             fresh\<lparr>trace := [RunEv ''sudo ls'' 0 [''$ '', ''# '', ''Password'']]\<rparr>,
             \<lparr>Session = ''id'', Cmd = [\<lparr>Stdin = ''sudo ls'', Stdout = [], Error = None\<rparr>],
               Output = [], Data = []\<rparr>,
             noRequest)"
proof -
  have g: "getTerminators noOptions ''$ '' (plainCommand ''sudo ls'') = [''$ '', ''# '']"
    by (simp add: getTerminators_def Let_def)
  have p: "ShellPrompt obliging (trace fresh) = ''$ ''" "\<not> SuperUSerAuth fresh"
    "Username fresh = ''dev''"
    by (simp_all add: obliging_def scripted_def fresh_def)
  have su: "commandAsSuperUser fresh ''sudo ls'' = ''sudo ls''"
    by (simp add: commandAsSuperUser_def)
  have r: "run plain obliging ctx fresh ''sudo ls'' 0 [''$ '', ''# '', ''Password'']
             = (([], None),
                fresh\<lparr>trace := trace fresh @ [RunEv ''sudo ls'' 0 [''$ '', ''# '', ''Password'']]\<rparr>)"
    for ctx
    by (rule run_ok) (simp add: obliging_def scripted_def)
  show ?thesis
    by (simp add: executeCommandBody_unfold runAndComplete_def completeCommand_def
        authSuperUserIfNeeded_def Let_def
        p g su r validateStdout_def Add_def NewCommandLog_def NewRunResponse_def separated_def)
       (simp add: fresh_def)
qed

lemma run_denied:
  "run plain denying ctx fresh ''ls'' 0 [''$ '', ''# '']
     = ((''ls: Permission denied'', None), fresh\<lparr>trace := [RunEv ''ls'' 0 [''$ '', ''# '']]\<rparr>)"
proof -
  have "run plain denying ctx fresh ''ls'' 0 [''$ '', ''# '']
     = ((''ls: Permission denied'', None),
        fresh\<lparr>trace := trace fresh @ [RunEv ''ls'' 0 [''$ '', ''# '']]\<rparr>)"
    by (rule run_ok) (simp add: denying_def scripted_def)
  then show ?thesis by (simp add: fresh_def)
qed

lemma executeCommand_retry:
  "executeCommand (Suc 0) plain denying Map.empty fresh (plainCommand ''ls'')
       (NewRunResponse ''id'') autoSudo
     = Some (None, [''os.user'' \<mapsto> ''dev''],
             fresh\<lparr>trace := [RunEv ''ls'' 0 [''$ '', ''# ''],
                              RunEv ''sudo ls'' 0 [''$ '', ''# '', ''Password'']]\<rparr>,
             \<lparr>Session = ''id'', Cmd = [\<lparr>Stdin = ''ls'', Stdout = [], Error = None\<rparr>],
               Output = [], Data = []\<rparr>,
             autoSudo)"
proof -
  define s1 where "s1 = fresh\<lparr>trace := [RunEv ''ls'' 0 [''$ '', ''# '']]\<rparr>"
  have req: "ReqOptions autoSudo = noOptions" "Secrets autoSudo = []" "\<not> SuperUser autoSudo"
    "AutoSudo autoSudo" "\<not> CheckError autoSudo"
    by (simp_all add: autoSudo_def)
  have g: "getTerminators noOptions ''$ '' (plainCommand ''ls'') = [''$ '', ''# '']"
    by (simp add: getTerminators_def Let_def)
  have p: "ShellPrompt denying (trace fresh) = ''$ ''" "Username fresh = ''dev''"
    "Username s1 = ''dev''" "\<not> SuperUSerAuth s1"
    "\<not> IsPermitted plain ''ls: Permission denied''"
    by (simp_all add: denying_def scripted_def fresh_def s1_def plain_def)
  have su: "commandAsSuperUser s1 ''ls'' = ''sudo ls''"
    by (simp add: commandAsSuperUser_def p)
  have r1: "run plain denying ctx fresh ''ls'' 0 [''$ '', ''# '']
             = ((''ls: Permission denied'', None), s1)" for ctx
    unfolding s1_def by (rule run_denied)
  have r2: "run plain denying ctx s1 ''sudo ls'' 0 [''$ '', ''# '', ''Password'']
             = (([], None),
                s1\<lparr>trace := trace s1 @ [RunEv ''sudo ls'' 0 [''$ '', ''# '', ''Password'']]\<rparr>)"
    for ctx
    by (rule run_ok) (simp add: denying_def scripted_def)
  show ?thesis
    by (simp add: executeCommandBody_unfold runAndComplete_def completeCommand_def
        retryWithSudo_def authSuperUserIfNeeded_def Let_def
        req p g su r1 r2 validateStdout_def Add_def NewCommandLog_def NewRunResponse_def
        separated_def)
       (simp add: s1_def fresh_def)
qed

text \<open>
  C4 (as amended): whenever \<open>executeCommand\<close> returns and has sent anything to the shell
  (the command was not suppressed by its \<open>When\<close> and its secrets expanded), the first
  request it sent is the \<open>Session.Run\<close> of the command with the secrets expanded, with
  the timeout of the command or else of the options, and the terminators passed with it
  are exactly: the command's own terminators if it has any, otherwise the options'
  terminators; then the literal \<open>$ \<close>; then the session's shell prompt with its first
  \<open>$\<close> replaced by \<open>#\<close> and, when the result contains \<open>bash\<close> anywhere, without its
  first two characters (so that \<open>bash-3.2$\<close> becomes \<open>sh-3.2#\<close>); then the command's
  error fragments; then the literal \<open>Password\<close> when the command is a superuser command
  (its expanded text contains \<open>sudo \<close>, or the request sets \<open>SuperUser\<close>) and the session
  has not authenticated sudo yet. When \<open>AutoSudo\<close> retries the command under sudo (the
  stdout shows that the permission was denied, the user is not root and the logged command
  does not start with \<open>sudo\<close>), the first request after that of \<open>run\<close> is the
  \<open>Session.Run\<close> of the retry, and it is passed the same terminators followed by one more
  \<open>Password\<close>.
\<close>

theorem executeCommand_terminators:
  assumes "executeCommand fuel c sh ctx s x response request = Some (e, ctx', s', r', request')"
    and "trace s' \<noteq> trace s"
  shows "let ctx1 = ctx(''os.user'' \<mapsto> Username s);
             options = ReqOptions request;
             prompt = Replace (ShellPrompt sh (trace s)) (CHR ''$'') ''#'' 1;
             terminators =
               (if Terminators x \<noteq> [] then Terminators x else OptTerminators options)
               @ [''$ '', if Contains prompt ''bash'' then drop 2 prompt else prompt]
               @ Errors x
               @ (if (Contains (Expand c ctx1 (Command x)) ''sudo '' \<or> SuperUser request)
                     \<and> \<not> SuperUSerAuth s
                  then [''Password''] else []);
             timeoutMs = (if TimeoutMs x > 0 then TimeoutMs x else OptTimeoutMs options)
         in \<exists>command.
              SecretsExpand c (securedCommandText c ctx s x response request) (Secrets request)
                = Inr command
              \<and> (\<exists>rest. trace s' = trace s @ RunEv command timeoutMs terminators # rest)
              \<and> (case run c sh ctx1 s command timeoutMs terminators of
                   ((out, err), s1) \<Rightarrow>
                     if AutoSudo request \<and> \<not> IsPermitted c out \<and> Username s1 \<noteq> ''root''
                        \<and> \<not> HasPrefix (if SecretReveal c then command
                                        else securedCommandText c ctx s x response request)
                             ''sudo''
                     then \<exists>rest. trace s' = trace s1
                            @ RunEv (commandAsSuperUser s1 command) (OptTimeoutMs options)
                                (terminators @ [''Password'']) # rest
                     else \<exists>rest. trace s' = trace s1 @ rest)"
proof (cases fuel)
  case 0
  with assms show ?thesis by simp
next
  case (Suc n)
  from assms(1) Suc have body:
    "executeCommandBody (executeCommand n c sh) c sh ctx s x response request
       = Some (e, ctx', s', r', request')"
    by simp
  from assms(2) have "s' \<noteq> s"
    by auto
  with body obtain command where
    expanded: "SecretsExpand c (securedCommandText c ctx s x response request) (Secrets request)
       = Inr command"
    and "runAndComplete (executeCommand n c sh) c sh (ctx(''os.user'' \<mapsto> Username s)) s x
        (ReqOptions request)
        (getTerminators (ReqOptions request) (ShellPrompt sh (trace s)) x
         @ (if (Contains (Expand c (ctx(''os.user'' \<mapsto> Username s)) (Command x)) ''sudo ''
                  \<or> SuperUser request) \<and> \<not> SuperUSerAuth s
            then [''Password''] else []))
        (if SecretReveal c then command else securedCommandText c ctx s x response request)
        command
        (if TimeoutMs x > 0 then TimeoutMs x else OptTimeoutMs (ReqOptions request))
        (Contains (Expand c (ctx(''os.user'' \<mapsto> Username s)) (Command x)) ''sudo ''
           \<or> SuperUser request)
        response request = Some (e, ctx', s', r', request')"
    by (rule executeCommandBody_run)
  note first = runAndComplete_first [OF this(2) executeCommand_extends]
  show ?thesis
    unfolding Let_def append_assoc
    by (intro exI [of _ command] conjI expanded
        conjunct1 [OF first, unfolded getTerminators_assembly append_assoc]
        conjunct2 [OF first, unfolded getTerminators_assembly append_assoc])
qed

theorem executeCommand_terminators_witness:
  "executeCommand (Suc 0) plain denying Map.empty fresh (plainCommand ''ls'')
       (NewRunResponse ''id'') autoSudo
     = Some (None, [''os.user'' \<mapsto> ''dev''],
             fresh\<lparr>trace := [RunEv ''ls'' 0 [''$ '', ''# ''],
                              RunEv ''sudo ls'' 0 [''$ '', ''# '', ''Password'']]\<rparr>,
             \<lparr>Session = ''id'', Cmd = [\<lparr>Stdin = ''ls'', Stdout = [], Error = None\<rparr>],
               Output = [], Data = []\<rparr>,
             autoSudo)
   \<and> trace (fresh\<lparr>trace := [RunEv ''ls'' 0 [''$ '', ''# ''],
                              RunEv ''sudo ls'' 0 [''$ '', ''# '', ''Password'']]\<rparr>) \<noteq> trace fresh
   \<and> (\<exists>rest. trace (fresh\<lparr>trace := [RunEv ''ls'' 0 [''$ '', ''# ''],
                              RunEv ''sudo ls'' 0 [''$ '', ''# '', ''Password'']]\<rparr>)
          = trace fresh @ RunEv ''ls'' 0 [''$ '', ''# ''] # rest)
   \<and> (\<exists>rest. trace (fresh\<lparr>trace := [RunEv ''ls'' 0 [''$ '', ''# ''],
                              RunEv ''sudo ls'' 0 [''$ '', ''# '', ''Password'']]\<rparr>)
          = trace (fresh\<lparr>trace := [RunEv ''ls'' 0 [''$ '', ''# '']]\<rparr>)
            @ RunEv ''sudo ls'' 0 [''$ '', ''# '', ''Password''] # rest)"
proof -
  have changed:
    "trace (fresh\<lparr>trace := [RunEv ''ls'' 0 [''$ '', ''# ''],
                              RunEv ''sudo ls'' 0 [''$ '', ''# '', ''Password'']]\<rparr>) \<noteq> trace fresh"
    by (simp add: fresh_def)
  have secured: "securedCommandText plain Map.empty fresh (plainCommand ''ls'')
      (NewRunResponse ''id'') autoSudo = ''ls''"
    by (simp add: securedCommandText_def Let_def autoSudo_def)
  have p: "ShellPrompt denying (trace fresh) = ''$ ''" "\<not> SuperUSerAuth fresh"
    "Username (fresh\<lparr>trace := [RunEv ''ls'' 0 [''$ '', ''# '']]\<rparr>) = ''dev''"
    "\<not> IsPermitted plain ''ls: Permission denied''"
    "ReqOptions autoSudo = noOptions" "Secrets autoSudo = []" "\<not> SuperUser autoSudo"
    "AutoSudo autoSudo"
    "commandAsSuperUser (fresh\<lparr>trace := [RunEv ''ls'' 0 [''$ '', ''# '']]\<rparr>) ''ls'' = ''sudo ls''"
    by (simp_all add: denying_def scripted_def fresh_def plain_def autoSudo_def
        commandAsSuperUser_def)
  from executeCommand_terminators [OF executeCommand_retry changed]
  have "(\<exists>rest. trace (fresh\<lparr>trace := [RunEv ''ls'' 0 [''$ '', ''# ''],
                              RunEv ''sudo ls'' 0 [''$ '', ''# '', ''Password'']]\<rparr>)
          = trace fresh @ RunEv ''ls'' 0 [''$ '', ''# ''] # rest)
   \<and> (\<exists>rest. trace (fresh\<lparr>trace := [RunEv ''ls'' 0 [''$ '', ''# ''],
                              RunEv ''sudo ls'' 0 [''$ '', ''# '', ''Password'']]\<rparr>)
          = trace (fresh\<lparr>trace := [RunEv ''ls'' 0 [''$ '', ''# '']]\<rparr>)
            @ RunEv ''sudo ls'' 0 [''$ '', ''# '', ''Password''] # rest)"
    unfolding Let_def secured
    by (simp add: p run_denied)
  with executeCommand_retry changed show ?thesis
    by (simp del: executeCommand.simps)
qed

text \<open>C4 as the specification states it fails in three ways. On the prompt \<open>bash-3.2$ \<close>
  the command \<open>ls\<close> is sent with the terminator \<open>sh-3.2# \<close>, where stripping the prefix
  \<open>bash\<close> would give \<open>-3.2# \<close>. The command \<open>sudo ls\<close>, on a session that has not
  authenticated sudo, is sent with \<open>Password\<close> after the list of the specification. And
  the retry of \<open>ls\<close> under sudo is sent with \<open>Password\<close> after that list, too.\<close>

theorem executeCommand_terminators_counterexample:
  "sessionOf (executeCommand (Suc 0) plain bashPrompt Map.empty fresh (plainCommand ''ls'')
       (NewRunResponse ''id'') noRequest)
     = Some (fresh\<lparr>trace := [RunEv ''ls'' 0 [''$ '', ''sh-3.2# '']]\<rparr>)
   \<and> specTerminators noOptions (ShellPrompt bashPrompt (trace fresh)) (plainCommand ''ls'')
     = [''$ '', ''-3.2# '']
   \<and> sessionOf (executeCommand (Suc 0) plain obliging Map.empty fresh (plainCommand ''sudo ls'')
       (NewRunResponse ''id'') noRequest)
     = Some (fresh\<lparr>trace := [RunEv ''sudo ls'' 0 [''$ '', ''# '', ''Password'']]\<rparr>)
   \<and> specTerminators noOptions (ShellPrompt obliging (trace fresh)) (plainCommand ''sudo ls'')
     = [''$ '', ''# '']
   \<and> sessionOf (executeCommand (Suc 0) plain denying Map.empty fresh (plainCommand ''ls'')
       (NewRunResponse ''id'') autoSudo)
     = Some (fresh\<lparr>trace := [RunEv ''ls'' 0 [''$ '', ''# ''],
                              RunEv ''sudo ls'' 0 [''$ '', ''# '', ''Password'']]\<rparr>)
   \<and> specTerminators noOptions (ShellPrompt denying (trace fresh)) (plainCommand ''ls'')
     = [''$ '', ''# '']"
proof -
  have "ShellPrompt bashPrompt (trace fresh) = ''bash-3.2$ ''"
    "ShellPrompt obliging (trace fresh) = ''$ ''"
    "ShellPrompt denying (trace fresh) = ''$ ''"
    by (simp_all add: bashPrompt_def obliging_def denying_def scripted_def)
  then show ?thesis
    by (simp add: executeCommand_bash executeCommand_sudo executeCommand_retry sessionOf_def
        specTerminators_def noOptions_def Let_def del: executeCommand.simps)
qed

subsection \<open>Fuel\<close>

text \<open>The fuel only bounds the depth of the sudo password exchange: a result does not
  change with more fuel, and a command that involves no sudo returns with any fuel.\<close>

lemma completeCommand_returns:
  "completeCommand c sh ctx s x options terminators securedCommand out err super response request
     \<noteq> None"
  by (simp add: completeCommand_def Let_def split: prod.splits option.splits)

lemma authSuperUserIfNeeded_mono:
  assumes "authSuperUserIfNeeded exec c out ctx s x response request = Some result"
    and "\<And>ctx s x response request result.
           exec ctx s x response request = Some result \<Longrightarrow>
           exec' ctx s x response request = Some result"
  shows "authSuperUserIfNeeded exec' c out ctx s x response request = Some result"
  using assms by (auto simp: authSuperUserIfNeeded_def Let_def split: if_splits)

lemma runAndComplete_mono:
  assumes res: "runAndComplete exec c sh ctx s x options terminators securedCommand
                  insecureCommand timeoutMs super response request = Some result"
    and mono: "\<And>ctx s x response request result.
           exec ctx s x response request = Some result \<Longrightarrow>
           exec' ctx s x response request = Some result"
  shows "runAndComplete exec' c sh ctx s x options terminators securedCommand
                  insecureCommand timeoutMs super response request = Some result"
proof -
  define r1 where "r1 = response\<lparr>Output := separated (Output response)\<rparr>"
  obtain out1 err1 s1 where
    run1: "run c sh ctx s insecureCommand timeoutMs terminators = ((out1, err1), s1)"
    by (metis prod.exhaust)
  define retry where "retry = (AutoSudo request \<and> \<not> IsPermitted c out1 \<and> Username s1 \<noteq> ''root''
                   \<and> \<not> HasPrefix securedCommand ''sudo'')"
  obtain out err s2 where
    second: "(if retry
              then retryWithSudo c sh ctx s1 insecureCommand (OptTimeoutMs options) terminators
              else ((out1, err1), s1)) = ((out, err), s2)"
    by (metis prod.exhaust)
  define super' where "super' = (super \<or> retry)"
  define a where "a = (\<lambda>exec. if super' then authSuperUserIfNeeded exec c out ctx s2 x r1 request
                       else Some (None, ctx, s2, r1, request))"
  have eq: "runAndComplete exec c sh ctx s x options terminators securedCommand
                  insecureCommand timeoutMs super response request
      = (case a exec of
          None \<Rightarrow> None
        | Some (Some e, ctx, s, response, request) \<Rightarrow> Some (Some e, ctx, s, response, request)
        | Some (None, ctx, s, response, request) \<Rightarrow>
            completeCommand c sh ctx s x options terminators securedCommand
              out err super' response request)" for exec
    unfolding runAndComplete_def Let_def run1 prod.case retry_def [symmetric] second
      super'_def [symmetric] r1_def [symmetric] a_def ..
  from res obtain y where y: "a exec = Some y"
    unfolding eq by (cases "a exec") simp_all
  then have "a exec' = Some y"
    unfolding a_def using mono by (auto split: if_splits intro: authSuperUserIfNeeded_mono)
  with res y show ?thesis unfolding eq by simp
qed

lemma if_mono:
  assumes "(if P then a else b) = Some r"
    and "P \<Longrightarrow> a = Some r \<Longrightarrow> a' = Some r" and "\<not> P \<Longrightarrow> b = Some r \<Longrightarrow> b' = Some r"
  shows "(if P then a' else b') = Some r"
  using assms by (cases P) simp_all

lemma case_sum_mono:
  assumes "(case x of Inl e \<Rightarrow> f e | Inr i \<Rightarrow> g i) = Some r"
    and "\<And>e. f e = Some r \<Longrightarrow> f' e = Some r" and "\<And>i. g i = Some r \<Longrightarrow> g' i = Some r"
  shows "(case x of Inl e \<Rightarrow> f' e | Inr i \<Rightarrow> g' i) = Some r"
  using assms by (cases x) simp_all

lemma executeCommandBody_mono:
  assumes res: "executeCommandBody exec c sh ctx s x response request = Some result"
    and mono: "\<And>ctx s x response request result.
           exec ctx s x response request = Some result \<Longrightarrow>
           exec' ctx s x response request = Some result"
  shows "executeCommandBody exec' c sh ctx s x response request = Some result"
  using res unfolding executeCommandBody_unfold Let_def
  apply (elim if_mono)
   apply assumption
  apply (elim case_sum_mono)
   apply assumption
  apply (erule runAndComplete_mono)
  apply (erule mono)
  done

lemma executeCommand_more_fuel:
  "executeCommand fuel c sh ctx s x response request = Some result \<Longrightarrow>
     executeCommand (Suc fuel) c sh ctx s x response request = Some result"
proof (induction fuel arbitrary: ctx s x response request result)
  case 0
  then show ?case by simp
next
  case (Suc fuel)
  from Suc.prems have
    "executeCommandBody (executeCommand fuel c sh) c sh ctx s x response request = Some result"
    by simp
  then have
    "executeCommandBody (executeCommand (Suc fuel) c sh) c sh ctx s x response request = Some result"
    by (rule executeCommandBody_mono) (rule Suc.IH)
  then show ?case by simp
qed

lemma runAndComplete_returns:
  assumes "\<not> super" and "\<not> AutoSudo request"
  shows "runAndComplete exec c sh ctx s x options terminators securedCommand
           insecureCommand timeoutMs super response request \<noteq> None"
proof -
  obtain out err s1 where
    "run c sh ctx s insecureCommand timeoutMs terminators = ((out, err), s1)"
    by (metis prod.exhaust)
  with assms show ?thesis
    by (simp add: runAndComplete_def Let_def completeCommand_returns)
qed

lemma if_returns: "(P \<Longrightarrow> a \<noteq> None) \<Longrightarrow> (\<not> P \<Longrightarrow> b \<noteq> None) \<Longrightarrow> (if P then a else b) \<noteq> None"
  by simp

lemma case_sum_returns:
  "(\<And>e. f e \<noteq> None) \<Longrightarrow> (\<And>i. g i \<noteq> None) \<Longrightarrow> (case x of Inl e \<Rightarrow> f e | Inr i \<Rightarrow> g i) \<noteq> None"
  by (cases x) simp_all

lemma executeCommand_returns:
  assumes "\<not> SuperUser request" and "\<not> AutoSudo request"
    and "\<not> Contains (Expand c (ctx(''os.user'' \<mapsto> Username s)) (Command x)) ''sudo ''"
  shows "executeCommand (Suc fuel) c sh ctx s x response request \<noteq> None"
proof -
  have super: "\<not> (Contains (Expand c (ctx(''os.user'' \<mapsto> Username s)) (Command x)) ''sudo ''
             \<or> SuperUser request)"
    using assms by simp
  show ?thesis
    unfolding executeCommand.simps executeCommandBody_unfold Let_def
    by (intro if_returns case_sum_returns runAndComplete_returns super assms(2))
       (rule option.distinct)+
qed

end
